theory Spec2Isabelle
  imports Complex_Main
begin

section \<open>Values shared by both scripts\<close>

text \<open>
  Both scripts exchange data as JSON. A parsed JSON document is what Python's
  \<^verbatim>\<open>json.loads\<close> (and \<^verbatim>\<open>response.json()\<close>) returns: \<^verbatim>\<open>None\<close>, a bool, an int, a
  float, a str, a list or a dict with string keys. A dict is kept as an association
  list read with \<open>map_of\<close>.
\<close>

datatype pyfloat = Finite rat | Infinity bool | NaN

datatype json =
    JNull
  | JBool bool
  | JInt int
  | JFloat pyfloat
  | JStr string
  | JArr "json list"
  | JObj "(string \<times> json) list"

datatype py_exception =
    KeyError
  | TypeError
  | AttributeError
  | ValueError
  | NameError
  | ZeroDivisionError
  | OverflowError
  | OSError
  | RequestException
  | JSONDecodeError

text \<open>Python's truth value of a parsed JSON document (\<^verbatim>\<open>if not x\<close>).\<close>

fun truthy :: "json \<Rightarrow> bool" where
  "truthy JNull = False"
| "truthy (JBool b) = b"
| "truthy (JInt i) = (i \<noteq> 0)"
| "truthy (JFloat f) = (f \<noteq> Finite 0)"
| "truthy (JStr s) = (s \<noteq> [])"
| "truthy (JArr xs) = (xs \<noteq> [])"
| "truthy (JObj kvs) = (kvs \<noteq> [])"

text \<open>\<^verbatim>\<open>p in s\<close> on two strings: \<open>p\<close> occurs in \<open>s\<close> as a contiguous run.\<close>

fun str_contains :: "string \<Rightarrow> string \<Rightarrow> bool" where
  "str_contains p [] = (p = [])"
| "str_contains p (c # cs) = (take (length p) (c # cs) = p \<or> str_contains p cs)"

text \<open>
  \<^verbatim>\<open>k in v\<close> for a string \<open>k\<close>: key membership on a dict, element membership on a
  list, substring on a str, and \<^verbatim>\<open>TypeError\<close> on everything else.
\<close>

fun py_contains :: "json \<Rightarrow> string \<Rightarrow> py_exception + bool" where
  "py_contains (JObj kvs) k = Inr (map_of kvs k \<noteq> None)"
| "py_contains (JArr xs) k = Inr (JStr k \<in> set xs)"
| "py_contains (JStr s) k = Inr (str_contains k s)"
| "py_contains _ k = Inl TypeError"

text \<open>\<^verbatim>\<open>v[k]\<close> for a string \<open>k\<close>: only a dict that holds the key answers.\<close>

fun py_subscript :: "json \<Rightarrow> string \<Rightarrow> py_exception + json" where
  "py_subscript (JObj kvs) k = (case map_of kvs k of None \<Rightarrow> Inl KeyError | Some v \<Rightarrow> Inr v)"
| "py_subscript _ k = Inl TypeError"

text \<open>\<^verbatim>\<open>v.get(k)\<close> and \<^verbatim>\<open>v.get(k, d)\<close>: only a dict has the method.\<close>

fun py_get_default :: "json \<Rightarrow> string \<Rightarrow> json \<Rightarrow> py_exception + json" where
  "py_get_default (JObj kvs) k d = Inr (case map_of kvs k of None \<Rightarrow> d | Some v \<Rightarrow> v)"
| "py_get_default _ k d = Inl AttributeError"

definition py_get :: "json \<Rightarrow> string \<Rightarrow> py_exception + json" where
  "py_get v k = py_get_default v k JNull"

section \<open>submit\_fine\_tuning.py: validate\_jsonl\<close>

text \<open>
  A line of a corpus file is represented by what \<^verbatim>\<open>json.loads\<close> makes of it:
  \<open>None\<close> when the text is not JSON (\<^verbatim>\<open>JSONDecodeError\<close>), the document otherwise.
  A file that cannot be opened or read is \<open>None\<close> in the file system.
\<close>

type_synonym line = "json option"
type_synonym filesystem = "string \<Rightarrow> line list option"

text \<open>One constructor per \<^verbatim>\<open>print\<close> of \<^verbatim>\<open>validate_jsonl\<close>; the number is \<^verbatim>\<open>i+1\<close>.\<close>

datatype notice =
    Validating string
  | Error_Empty string
  | Error_Missing_Messages nat
  | Error_Too_Few_Messages nat
  | Warning_Not_System nat
  | Error_Missing_User nat
  | Error_Content_Not_List nat
  | Error_Invalid_Image_Url nat
  | Error_No_Image nat
  | Error_Missing_Assistant nat
  | Error_Not_Json nat
  | Error_On_Line nat py_exception
  | Validation_Successful string nat
  | Error_Validating string

text \<open>
  \<^verbatim>\<open>for msg in messages: if msg["role"] == r: found = msg; break\<close>, with \<open>None\<close> when
  the loop ends without a match.
\<close>

fun find_role :: "string \<Rightarrow> json list \<Rightarrow> py_exception + json option" where
  "find_role r [] = Inr None"
| "find_role r (msg # msgs) =
     (case py_subscript msg ''role'' of
        Inl e \<Rightarrow> Inl e
      | Inr v \<Rightarrow> if v = JStr r then Inr (Some msg) else find_role r msgs)"

text \<open>\<^verbatim>\<open>"image_url" not in item or "url" not in item["image_url"]\<close>\<close>

definition image_item_invalid :: "json \<Rightarrow> py_exception + bool" where
  "image_item_invalid item =
     (case py_contains item ''image_url'' of
        Inl e \<Rightarrow> Inl e
      | Inr False \<Rightarrow> Inr True
      | Inr True \<Rightarrow>
          (case py_subscript item ''image_url'' of
             Inl e \<Rightarrow> Inl e
           | Inr v \<Rightarrow>
               (case py_contains v ''url'' of Inl e \<Rightarrow> Inl e | Inr b \<Rightarrow> Inr (\<not> b))))"

text \<open>
  The loop over the user message's content. \<open>Inr None\<close>: an image item with an
  invalid format was met (the function returns False there); \<open>Inr (Some b)\<close>: the loop
  ran to its end with \<^verbatim>\<open>has_image = b\<close>.
\<close>

fun scan_content :: "json list \<Rightarrow> bool \<Rightarrow> py_exception + bool option" where
  "scan_content [] has_image = Inr (Some has_image)"
| "scan_content (item # items) has_image =
     (case py_get item ''type'' of
        Inl e \<Rightarrow> Inl e
      | Inr t \<Rightarrow>
          if t = JStr ''image_url'' then
            (case image_item_invalid item of
               Inl e \<Rightarrow> Inl e
             | Inr True \<Rightarrow> Inr None
             | Inr False \<Rightarrow> scan_content items True)
          else scan_content items has_image)"

text \<open>
  How the body of the per-line \<^verbatim>\<open>try\<close> ends: it falls through to the next line,
  it returns False after printing an error, or it raises.
\<close>

datatype line_status = Passed | Rejected | Raised py_exception

definition check_assistant :: "nat \<Rightarrow> json list \<Rightarrow> notice list \<times> line_status" where
  "check_assistant n messages =
     (case find_role ''assistant'' messages of
        Inl e \<Rightarrow> ([], Raised e)
      | Inr assistant_msg \<Rightarrow>
          if (case assistant_msg of None \<Rightarrow> True | Some m \<Rightarrow> \<not> truthy m)
          then ([Error_Missing_Assistant n], Rejected)
          else ([], Passed))"

definition check_user :: "nat \<Rightarrow> json list \<Rightarrow> notice list \<times> line_status" where
  "check_user n messages =
     (case find_role ''user'' messages of
        Inl e \<Rightarrow> ([], Raised e)
      | Inr user_message \<Rightarrow>
          (case user_message of
             None \<Rightarrow> ([Error_Missing_User n], Rejected)
           | Some um \<Rightarrow>
               if \<not> truthy um then ([Error_Missing_User n], Rejected)
               else
                 (case py_subscript um ''content'' of
                    Inl e \<Rightarrow> ([], Raised e)
                  | Inr (JArr content) \<Rightarrow>
                      (case scan_content content False of
                         Inl e \<Rightarrow> ([], Raised e)
                       | Inr None \<Rightarrow> ([Error_Invalid_Image_Url n], Rejected)
                       | Inr (Some has_image) \<Rightarrow>
                           if \<not> has_image then ([Error_No_Image n], Rejected)
                           else check_assistant n messages)
                  | Inr _ \<Rightarrow> ([Error_Content_Not_List n], Rejected))))"

definition check_messages :: "nat \<Rightarrow> json \<Rightarrow> notice list \<times> line_status" where
  "check_messages n messages =
     (case messages of
        JArr msgs \<Rightarrow>
          if length msgs < 2 then ([Error_Too_Few_Messages n], Rejected)
          else
            (case msgs of
               [] \<Rightarrow> ([Error_Too_Few_Messages n], Rejected)
             | first # _ \<Rightarrow>
                 (case py_subscript first ''role'' of
                    Inl e \<Rightarrow> ([], Raised e)
                  | Inr role \<Rightarrow>
                      (let warn = (if role \<noteq> JStr ''system'' then [Warning_Not_System n] else []);
                           (out, st) = check_user n msgs
                       in (warn @ out, st))))
      | _ \<Rightarrow> ([Error_Too_Few_Messages n], Rejected))"

definition check_data :: "nat \<Rightarrow> json \<Rightarrow> notice list \<times> line_status" where
  "check_data n data =
     (case py_contains data ''messages'' of
        Inl e \<Rightarrow> ([], Raised e)
      | Inr False \<Rightarrow> ([Error_Missing_Messages n], Rejected)
      | Inr True \<Rightarrow>
          (case py_subscript data ''messages'' of
             Inl e \<Rightarrow> ([], Raised e)
           | Inr messages \<Rightarrow> check_messages n messages))"

text \<open>
  One turn of \<^verbatim>\<open>for i, line in enumerate(lines)\<close>: the notices printed and whether
  the loop goes on (\<open>True\<close>) or the function returns False. The two \<^verbatim>\<open>except\<close>
  clauses turn every exception into a printed error and a False.
\<close>

definition check_line :: "nat \<Rightarrow> line \<Rightarrow> notice list \<times> bool" where
  "check_line i row =
     (case row of
        None \<Rightarrow> ([Error_Not_Json (i + 1)], False)
      | Some data \<Rightarrow>
          (case check_data (i + 1) data of
             (out, Passed) \<Rightarrow> (out, True)
           | (out, Rejected) \<Rightarrow> (out, False)
           | (out, Raised e) \<Rightarrow> (out @ [Error_On_Line (i + 1) e], False)))"

fun check_lines :: "nat \<Rightarrow> line list \<Rightarrow> notice list \<times> bool" where
  "check_lines i [] = ([], True)"
| "check_lines i (row # rows) =
     (case check_line i row of
        (out, False) \<Rightarrow> (out, False)
      | (out, True) \<Rightarrow> (case check_lines (i + 1) rows of (out', ok) \<Rightarrow> (out @ out', ok)))"

text \<open>\<^verbatim>\<open>validate_jsonl(file_path)\<close>: the value returned and everything printed.\<close>

definition validate_jsonl :: "filesystem \<Rightarrow> string \<Rightarrow> bool \<times> notice list" where
  "validate_jsonl fs file_path =
     (case fs file_path of
        None \<Rightarrow> (False, [Validating file_path, Error_Validating file_path])
      | Some lines \<Rightarrow>
          if lines = [] then (False, [Validating file_path, Error_Empty file_path])
          else
            (case check_lines 0 lines of
               (out, False) \<Rightarrow> (False, Validating file_path # out)
             | (out, True) \<Rightarrow>
                 (True, Validating file_path # out
                        @ [Validation_Successful file_path (length lines)])))"

section \<open>prepare\_training\_data.py\<close>

subsection \<open>Python numbers\<close>

text \<open>
  \<^verbatim>\<open>int(height * (max_size / width))\<close> divides two ints into a float, multiplies an
  int by a float and truncates. A float is an IEEE 754 binary64 value, kept here as the
  rational it denotes; \<open>round_double\<close> is rounding to nearest, ties to even, with 53
  bits of precision, gradual underflow below \<open>2 powi -1022\<close> and \<open>None\<close> on overflow.
\<close>

fun bit_length :: "nat \<Rightarrow> nat" where
  "bit_length n = (if n = 0 then 0 else Suc (bit_length (n div 2)))"

text \<open>For \<open>0 < x\<close>: the \<open>e\<close> with \<open>2 powi e \<le> x < 2 powi (e + 1)\<close>.\<close>

definition float_exponent :: "rat \<Rightarrow> int" where
  "float_exponent x =
     (if 1 \<le> x then int (bit_length (nat \<lfloor>x\<rfloor>)) - 1
      else - int (bit_length (nat (\<lceil>1 / x\<rceil> - 1))))"

definition round_half_even :: "rat \<Rightarrow> int" where
  "round_half_even y =
     (let f = \<lfloor>y\<rfloor>; d = y - of_int f
      in if d < 1 / 2 then f else if 1 / 2 < d then f + 1 else if even f then f else f + 1)"

definition round_double :: "rat \<Rightarrow> rat option" where
  "round_double x =
     (if x = 0 then Some 0
      else
        let e = max (float_exponent \<bar>x\<bar>) (- 1022);
            ulp = 2 powi (e - 52);
            r = of_int (round_half_even (x / ulp)) * ulp
        in if 2 ^ 1024 \<le> \<bar>r\<bar> then None else Some r)"

text \<open>\<^verbatim>\<open>a / b\<close> on two ints: the correctly rounded quotient.\<close>

definition true_divide :: "int \<Rightarrow> int \<Rightarrow> py_exception + pyfloat" where
  "true_divide a b =
     (if b = 0 then Inl ZeroDivisionError
      else
        (case round_double (of_int a / of_int b) of
           None \<Rightarrow> Inl OverflowError
         | Some q \<Rightarrow> Inr (Finite q)))"

text \<open>
  \<^verbatim>\<open>a * q\<close> for an int and a float: the int is converted first (it may be too large),
  the product of two floats overflows to an infinity without raising.
\<close>

definition float_product :: "rat \<Rightarrow> pyfloat \<Rightarrow> pyfloat" where
  "float_product a q =
     (case q of
        Finite b \<Rightarrow>
          (case round_double (a * b) of
             Some p \<Rightarrow> Finite p
           | None \<Rightarrow> Infinity (0 < a * b))
      | Infinity pos \<Rightarrow> (if a = 0 then NaN else Infinity ((0 < a) = pos))
      | NaN \<Rightarrow> NaN)"

definition int_times_float :: "int \<Rightarrow> pyfloat \<Rightarrow> py_exception + pyfloat" where
  "int_times_float a q =
     (case round_double (of_int a) of
        None \<Rightarrow> Inl OverflowError
      | Some af \<Rightarrow> Inr (float_product af q))"

text \<open>\<^verbatim>\<open>int(x)\<close> on a float truncates toward zero.\<close>

definition py_int :: "pyfloat \<Rightarrow> py_exception + int" where
  "py_int x =
     (case x of
        Finite r \<Rightarrow> Inr (if 0 \<le> r then \<lfloor>r\<rfloor> else \<lceil>r\<rceil>)
      | Infinity pos \<Rightarrow> Inl OverflowError
      | NaN \<Rightarrow> Inl ValueError)"

text \<open>\<^verbatim>\<open>int(a * (m / b))\<close>\<close>

definition scaled :: "int \<Rightarrow> int \<Rightarrow> int \<Rightarrow> py_exception + int" where
  "scaled a m b =
     (case true_divide m b of
        Inl e \<Rightarrow> Inl e
      | Inr q \<Rightarrow> (case int_times_float a q of Inl e \<Rightarrow> Inl e | Inr p \<Rightarrow> py_int p))"

subsection \<open>Images\<close>

text \<open>
  An image as Pillow holds it: its size, where its pixels come from, and whether its
  mode can be written as JPEG (an RGBA or palette image cannot).
\<close>

datatype pixels = Decoded string | Resampled pixels "int \<times> int"

record image =
  width :: int
  height :: int
  content :: pixels
  jpeg_mode :: bool

text \<open>
  \<^verbatim>\<open>img.resize((w, h), Image.LANCZOS)\<close>: Pillow refuses a size below one pixel with a
  \<^verbatim>\<open>ValueError\<close>, returns a copy when the size does not change, and an image of
  exactly the requested size otherwise.
\<close>

definition pil_resize :: "image \<Rightarrow> int \<times> int \<Rightarrow> py_exception + image" where
  "pil_resize img sz =
     (if fst sz < 1 \<or> snd sz < 1 then Inl ValueError
      else if sz = (width img, height img) then Inr img
      else Inr (img\<lparr>width := fst sz, height := snd sz, content := Resampled (content img) sz\<rparr>))"

text \<open>
  The body of the \<^verbatim>\<open>try\<close> of \<^verbatim>\<open>resize_image\<close>, for an image that opened. The two
  locals \<^verbatim>\<open>new_width\<close> and \<^verbatim>\<open>new_height\<close> are \<open>None\<close> while unbound: the branch
  \<^verbatim>\<open>width > height\<close> has no \<^verbatim>\<open>else\<close>, so with \<^verbatim>\<open>width <= max_size\<close> control reaches
  \<^verbatim>\<open>img.resize((new_width, new_height), ...)\<close> with both unbound.
\<close>

definition resize_call :: "image \<Rightarrow> int option \<Rightarrow> int option \<Rightarrow> py_exception + image" where
  "resize_call img new_width new_height =
     (case (new_width, new_height) of
        (Some w, Some h) \<Rightarrow> pil_resize img (w, h)
      | _ \<Rightarrow> Inl NameError)"

definition resize_body :: "image \<Rightarrow> int \<Rightarrow> py_exception + image" where
  "resize_body img max_size =
     (if width img > height img then
        (if width img > max_size then
           (case scaled (height img) max_size (width img) of
              Inl e \<Rightarrow> Inl e
            | Inr new_height \<Rightarrow> resize_call img (Some max_size) (Some new_height))
         else resize_call img None None)
      else
        (if height img > max_size then
           (case scaled (width img) max_size (height img) of
              Inl e \<Rightarrow> Inl e
            | Inr new_width \<Rightarrow> resize_call img (Some new_width) (Some max_size))
         else Inr img))"

text \<open>
  \<^verbatim>\<open>resize_image(image_path, max_size)\<close>. The first argument is what
  \<^verbatim>\<open>Image.open\<close> and the later load of the pixels give for the path: \<open>None\<close> when
  the file is not a readable image. Every exception becomes the result \<open>None\<close>.
\<close>

definition resize_image :: "image option \<Rightarrow> int \<Rightarrow> image option" where
  "resize_image opened max_size =
     (case opened of
        None \<Rightarrow> None
      | Some img \<Rightarrow> (case resize_body img max_size of Inl e \<Rightarrow> None | Inr out \<Rightarrow> Some out))"

subsection \<open>Upload Worker\<close>

record args =
  photos_dir :: string
  output_file :: string
  upload_endpoint :: string
  max_workers :: int
  resize :: int
  api_key :: "string option"
  dry_run :: bool

text \<open>
  What a run meets outside the script: the image files found under a directory (the
  three recursive globs, in order), what opening and loading a path as an image gives,
  the answer of the upload endpoint to a POST (endpoint, file name, image sent,
  headers), where \<open>None\<close> is a transport failure raised by \<^verbatim>\<open>requests.post\<close>, and
  the instant at which the pool finishes the upload of a path.
\<close>

record response =
  status_code :: int
  body :: "json option"

record world =
  find_images :: "string \<Rightarrow> string list"
  open_image :: "string \<Rightarrow> image option"
  post :: "string \<Rightarrow> string \<Rightarrow> image \<Rightarrow> (string \<times> string) list \<Rightarrow> response option"
  finished_at :: "string \<Rightarrow> nat"

text \<open>\<^verbatim>\<open>os.path.basename\<close>: what follows the last slash.\<close>

definition basename :: "string \<Rightarrow> string" where
  "basename p = rev (takeWhile (\<lambda>c. c \<noteq> CHR ''/'') (rev p))"

text \<open>
  The URL extraction of \<^verbatim>\<open>upload_image\<close>, lines 138 to 147. Python's \<^verbatim>\<open>None\<close> is
  \<open>JNull\<close>; \<^verbatim>\<open>result.get('data', {})\<close> answers with whatever the body holds under
  \<^verbatim>\<open>data\<close>, and the \<^verbatim>\<open>.get('url')\<close> that follows raises unless that is a dict.
\<close>

definition extract_url :: "json \<Rightarrow> py_exception + json" where
  "extract_url result =
     (case py_get result ''url'' of
        Inl e \<Rightarrow> Inl e
      | Inr image_url \<Rightarrow>
          if truthy image_url then Inr image_url
          else
            (case py_get_default result ''data'' (JObj []) of
               Inl e \<Rightarrow> Inl e
             | Inr data \<Rightarrow>
                 (case py_get data ''url'' of
                    Inl e \<Rightarrow> Inl e
                  | Inr nested \<Rightarrow>
                      if truthy nested then Inr nested
                      else
                        (case py_get result ''image_url'' of
                           Inl e \<Rightarrow> Inl e
                         | Inr last_url \<Rightarrow> if truthy last_url then Inr last_url else Inl ValueError))))"

text \<open>The \<^verbatim>\<open>try\<close> of \<^verbatim>\<open>upload_image\<close>: post, \<^verbatim>\<open>raise_for_status\<close>, parse, extract.\<close>

definition request_headers :: "args \<Rightarrow> (string \<times> string) list" where
  "request_headers a =
     (case api_key a of
        None \<Rightarrow> []
      | Some k \<Rightarrow> if k = [] then [] else [(''Authorization'', ''Bearer '' @ k)])"

definition post_image :: "args \<Rightarrow> world \<Rightarrow> string \<Rightarrow> image \<Rightarrow> py_exception + json" where
  "post_image a w image_path img =
     (case post w (upload_endpoint a) (basename image_path) img (request_headers a) of
        None \<Rightarrow> Inl RequestException
      | Some r \<Rightarrow>
          if 400 \<le> status_code r \<and> status_code r < 600 then Inl RequestException
          else (case body r of None \<Rightarrow> Inl JSONDecodeError | Some result \<Rightarrow> extract_url result))"

text \<open>
  \<^verbatim>\<open>upload_image(image_path, args)\<close>: \<open>Inr JNull\<close> is the return of \<^verbatim>\<open>None\<close>,
  \<open>Inl\<close> an exception that leaves the function (\<^verbatim>\<open>img.save\<close> is outside the
  \<^verbatim>\<open>try\<close>).
\<close>

definition upload_image :: "args \<Rightarrow> world \<Rightarrow> string \<Rightarrow> py_exception + json" where
  "upload_image a w image_path =
     (if dry_run a then Inr (JStr (''http://example.com/images/'' @ basename image_path))
      else
        (case resize_image (open_image w image_path) (resize a) of
           None \<Rightarrow> Inr JNull
         | Some img \<Rightarrow>
             if \<not> jpeg_mode img then Inl OSError
             else
               (case post_image a w image_path img of
                  Inl e \<Rightarrow> Inr JNull
                | Inr image_url \<Rightarrow> Inr image_url)))"

subsection \<open>Training examples\<close>

text \<open>
  \<^verbatim>\<open>CATEGORIES\<close>, in the order of the dict: each pattern is a literal text followed by
  \<^verbatim>\<open>\s+\<close>, so \<^verbatim>\<open>re.search\<close> succeeds when the literal occurs somewhere with a
  whitespace character right after it.
\<close>

definition CATEGORIES :: "(string \<times> string) list" where
  "CATEGORIES =
     [(''Adson brown forceps'', ''Adson brown''),
      (''Adson smooth forceps'', ''Adson smooth forceps''),
      (''Jacobson clamp curved'', ''Extra fine point Jacobson clamp curved''),
      (''Hemostatic clamp curved'', ''Hemastatclamp curved''),
      (''Jackson right angle clamp'', ''Jackson right angle clamp''),
      (''Mosquito clamp curved'', ''MosquitoClampCurved'')]"

definition is_space :: "char \<Rightarrow> bool" where
  "is_space c =
     (let n = (of_char c :: nat)
      in (9 \<le> n \<and> n \<le> 13) \<or> (28 \<le> n \<and> n \<le> 32) \<or> n = 133 \<or> n = 160)"

fun search_then_space :: "string \<Rightarrow> string \<Rightarrow> bool" where
  "search_then_space lit [] = False"
| "search_then_space lit (c # cs) =
     ((take (length lit) (c # cs) = lit
       \<and> (case drop (length lit) (c # cs) of [] \<Rightarrow> False | d # _ \<Rightarrow> is_space d))
      \<or> search_then_space lit cs)"

fun first_category :: "(string \<times> string) list \<Rightarrow> string \<Rightarrow> string" where
  "first_category [] filename = ''Unknown''"
| "first_category ((category, lit) # rest) filename =
     (if search_then_space lit filename then category else first_category rest filename)"

definition get_instrument_category :: "string \<Rightarrow> string" where
  "get_instrument_category filename = first_category CATEGORIES filename"

definition create_training_example :: "string \<Rightarrow> json \<Rightarrow> json" where
  "create_training_example image_path image_url =
     (let instrument_category = get_instrument_category (basename image_path)
      in JObj [(''messages'', JArr
           [JObj [(''role'', JStr ''system''),
                  (''content'', JStr (''You are a surgical instrument identification assistant. ''
                     @ ''When shown an image of a surgical instrument, ''
                     @ ''identify the type of instrument accurately.''))],
            JObj [(''role'', JStr ''user''),
                  (''content'', JArr
                     [JObj [(''type'', JStr ''text''),
                            (''text'', JStr ''What is this surgical instrument?'')],
                      JObj [(''type'', JStr ''image_url''),
                            (''image_url'', JObj [(''url'', image_url)])]])],
            JObj [(''role'', JStr ''assistant''),
                  (''content'', JStr (''This is a '' @ instrument_category @ ''. It''
                     @ [CHR 0x27] @ ''s used in surgical procedures for grasping, ''
                     @ ''clamping, or manipulating tissues.''))]])])"

subsection \<open>Concurrent Batch Pipeline\<close>

text \<open>
  The loop of \<^verbatim>\<open>process_images\<close> walks the dict \<^verbatim>\<open>future_to_image\<close>, whose keys are
  the futures in the order they were submitted, and takes \<^verbatim>\<open>future.result()\<close> of
  each: the value \<^verbatim>\<open>upload_image\<close> returned, or the exception it raised, whenever the
  upload itself finished. An exception and a false value both append nothing.
\<close>

fun training_examples :: "args \<Rightarrow> world \<Rightarrow> string list \<Rightarrow> json list" where
  "training_examples a w [] = []"
| "training_examples a w (image_file # image_files) =
     (case upload_image a w image_file of
        Inl e \<Rightarrow> training_examples a w image_files
      | Inr image_url \<Rightarrow>
          if truthy image_url
          then create_training_example image_file image_url # training_examples a w image_files
          else training_examples a w image_files)"

text \<open>
  \<^verbatim>\<open>process_images(args)\<close>: the pool cannot be made with fewer than one worker
  (\<^verbatim>\<open>ThreadPoolExecutor\<close> raises \<^verbatim>\<open>ValueError\<close>); otherwise one line per example is
  written to the output file. A written line reads back as the document it was made from.
\<close>

definition json_dumps :: "json \<Rightarrow> line" where
  "json_dumps example = Some example"

definition process_images :: "args \<Rightarrow> world \<Rightarrow> filesystem \<Rightarrow> py_exception + filesystem" where
  "process_images a w fs =
     (if max_workers a \<le> 0 then Inl ValueError
      else
        Inr (fs(output_file a :=
               Some (map json_dumps (training_examples a w (find_images w (photos_dir a)))))))"

section \<open>submit\_fine\_tuning.py: staging, job control and main\<close>

subsection \<open>The training service and the trace of a run\<close>

record submit_args =
  training_file :: string
  validation_file :: "string option"
  model :: string
  suffix :: string
  openai_api_key :: "string option"
  n_epochs :: int
  batch_size :: int
  learning_rate_multiplier :: pyfloat

record file_info =
  file_status :: string
  file_error :: "string option"

record job_info =
  job_status :: string
  fine_tuned_model :: "string option"
  job_error :: "string option"
  training_metrics :: "(string \<times> string) list option"

record job_params =
  param_training_file :: string
  param_model :: string
  param_suffix :: string
  param_hyperparameters :: "int \<times> int \<times> pyfloat"
  param_validation_file :: "string option"

text \<open>
  What a run of the script meets: the variable \<^verbatim>\<open>OPENAI_API_KEY\<close>, the local files, the
  successive readings of \<^verbatim>\<open>time.time()\<close>, and the answers of the service. A \<open>None\<close>
  answer is a client call that raises. The status queries are numbered in the order made.
\<close>

record env =
  environ_api_key :: "string option"
  files :: filesystem
  clock :: "nat \<Rightarrow> rat"
  files_create :: "string \<Rightarrow> string option"
  files_retrieve :: "nat \<Rightarrow> string \<Rightarrow> file_info option"
  jobs_create :: "job_params \<Rightarrow> string option"
  jobs_retrieve :: "nat \<Rightarrow> string \<Rightarrow> job_info option"

text \<open>Everything a run does that can be seen: client calls, sleeps, and one constructor per \<^verbatim>\<open>print\<close>.\<close>

datatype printed =
    Validation notice
  | Uploading string
  | Uploaded string string
  | Error_Uploading string
  | Waiting_For_File string
  | File_Processed string
  | Error_Processing_File string "string option"
  | File_Status string
  | Error_Checking_Status
  | Timeout_Waiting string
  | Creating_Job
  | Created_Job string
  | Error_Creating_Job
  | Monitoring string
  | Job_Status string
  | Completed_Successfully
  | Fine_Tuned_Model "string option"
  | Failed_With_Status string
  | Job_Error string
  | Current_Metrics "(string \<times> string) list"
  | Waiting_Seconds int
  | Error_Monitoring
  | Api_Key_Not_Provided
  | Training_Validation_Failed
  | Validation_Validation_Failed
  | Training_Upload_Failed
  | Training_Processing_Failed
  | Validation_Upload_Failed
  | Validation_Processing_Failed
  | Job_Creation_Failed

datatype event =
    Call_Files_Create string
  | Call_Files_Retrieve string
  | Call_Jobs_Create job_params
  | Call_Jobs_Retrieve string
  | Sleep int
  | Out printed

record run_state =
  readings :: nat
  file_polls :: nat
  job_polls :: nat
  trace :: "event list"

definition emit :: "event list \<Rightarrow> run_state \<Rightarrow> run_state" where
  "emit evs s = s\<lparr>trace := trace s @ evs\<rparr>"

subsection \<open>Remote File Stager\<close>

text \<open>
  \<^verbatim>\<open>upload_file(client, file_path)\<close>: the file is opened, then sent; either step may
  raise, and the function then returns \<^verbatim>\<open>None\<close>.
\<close>

definition upload_file :: "env \<Rightarrow> string \<Rightarrow> run_state \<Rightarrow> string option \<times> run_state" where
  "upload_file e file_path s =
     (case files e file_path of
        None \<Rightarrow> (None, emit [Out (Uploading file_path), Out (Error_Uploading file_path)] s)
      | Some rows \<Rightarrow>
          (case files_create e file_path of
             None \<Rightarrow>
               (None, emit [Out (Uploading file_path), Call_Files_Create file_path,
                            Out (Error_Uploading file_path)] s)
           | Some file_id \<Rightarrow>
               (Some file_id, emit [Out (Uploading file_path), Call_Files_Create file_path,
                                    Out (Uploaded file_path file_id)] s)))"

text \<open>
  One turn of the \<^verbatim>\<open>while\<close> of \<^verbatim>\<open>wait_for_file_processing\<close> after its test: what the
  status query gives. \<open>Inl\<close>: the function returns that value; \<open>Inr\<close>: it sleeps five
  seconds and tests again.
\<close>

definition file_poll :: "env \<Rightarrow> string \<Rightarrow> run_state \<Rightarrow> (bool \<times> run_state) + run_state" where
  "file_poll e file_id s =
     (let s' = s\<lparr>file_polls := file_polls s + 1\<rparr>
      in case files_retrieve e (file_polls s) file_id of
           None \<Rightarrow> Inr (emit [Call_Files_Retrieve file_id, Out Error_Checking_Status, Sleep 5] s')
         | Some file_info \<Rightarrow>
             if file_status file_info = ''processed''
             then Inl (True, emit [Call_Files_Retrieve file_id, Out (File_Processed file_id)] s')
             else if file_status file_info = ''error''
             then Inl (False, emit [Call_Files_Retrieve file_id,
                                    Out (Error_Processing_File file_id (file_error file_info))] s')
             else Inr (emit [Call_Files_Retrieve file_id, Out (File_Status (file_status file_info)),
                             Sleep 5] s'))"

text \<open>
  The loop \<^verbatim>\<open>while time.time() - start_time < timeout\<close>. Each test takes the next
  reading of the clock. The loop need not end: not returning is the value \<open>None\<close>.
\<close>

partial_function (option) wait_loop ::
  "env \<Rightarrow> string \<Rightarrow> rat \<Rightarrow> rat \<Rightarrow> run_state \<Rightarrow> (bool \<times> run_state) option" where
  "wait_loop e file_id start_time timeout s =
     (if clock e (readings s) - start_time < timeout then
        (case file_poll e file_id (s\<lparr>readings := readings s + 1\<rparr>) of
           Inl result \<Rightarrow> Some result
         | Inr s' \<Rightarrow> wait_loop e file_id start_time timeout s')
      else Some (False, emit [Out (Timeout_Waiting file_id)] (s\<lparr>readings := readings s + 1\<rparr>)))"

definition wait_for_file_processing ::
  "env \<Rightarrow> string \<Rightarrow> rat \<Rightarrow> run_state \<Rightarrow> (bool \<times> run_state) option" where
  "wait_for_file_processing e file_id timeout s =
     wait_loop e file_id (clock e (readings s)) timeout
       (emit [Out (Waiting_For_File file_id)] (s\<lparr>readings := readings s + 1\<rparr>))"

subsection \<open>Job Lifecycle Controller\<close>

definition create_fine_tuning_job ::
  "env \<Rightarrow> submit_args \<Rightarrow> string \<Rightarrow> string option \<Rightarrow> run_state \<Rightarrow> string option \<times> run_state" where
  "create_fine_tuning_job e a training_file_id validation_file_id s =
     (let job_params =
            \<lparr>param_training_file = training_file_id, param_model = model a,
             param_suffix = suffix a,
             param_hyperparameters = (n_epochs a, batch_size a, learning_rate_multiplier a),
             param_validation_file =
               (case validation_file_id of
                  None \<Rightarrow> None
                | Some v \<Rightarrow> if v = [] then None else Some v)\<rparr>
      in case jobs_create e job_params of
           None \<Rightarrow> (None, emit [Out Creating_Job, Call_Jobs_Create job_params, Out Error_Creating_Job] s)
         | Some job_id \<Rightarrow>
             (Some job_id, emit [Out Creating_Job, Call_Jobs_Create job_params,
                                 Out (Created_Job job_id)] s))"

text \<open>
  \<^verbatim>\<open>time.sleep(secs)\<close> with an int: a length that does not fit a C timestamp in
  nanoseconds raises \<^verbatim>\<open>OverflowError\<close>, a negative one \<^verbatim>\<open>ValueError\<close>.
\<close>

definition sleep_error :: "int \<Rightarrow> py_exception option" where
  "sleep_error secs =
     (if secs * 10 ^ 9 < - (2 ^ 63) \<or> 2 ^ 63 \<le> secs * 10 ^ 9 then Some OverflowError
      else if secs < 0 then Some ValueError
      else None)"

text \<open>
  The \<^verbatim>\<open>except\<close> clause of \<^verbatim>\<open>monitor_fine_tuning_job\<close>, entered after the events
  \<open>evs\<close>: it prints and sleeps; a sleep that raises there leaves the function.
\<close>

definition monitor_except ::
  "int \<Rightarrow> event list \<Rightarrow> run_state \<Rightarrow> ((py_exception + bool) \<times> run_state) + run_state" where
  "monitor_except check_interval evs s =
     (case sleep_error check_interval of
        None \<Rightarrow> Inr (emit (evs @ [Out Error_Monitoring, Sleep check_interval]) s)
      | Some err \<Rightarrow> Inl (Inl err, emit (evs @ [Out Error_Monitoring]) s))"

text \<open>
  One turn of the \<^verbatim>\<open>while True\<close> of \<^verbatim>\<open>monitor_fine_tuning_job\<close>. \<open>Inl\<close>: the function
  ends, returning the bool (\<open>Inr\<close>) or raising (\<open>Inl\<close>); \<open>Inr\<close>: it has slept for the
  check interval and polls again. A query that raises, and a sleep that raises inside
  the \<^verbatim>\<open>try\<close>, both enter the \<^verbatim>\<open>except\<close> clause.
\<close>

definition job_poll ::
  "env \<Rightarrow> string \<Rightarrow> int \<Rightarrow> run_state \<Rightarrow> ((py_exception + bool) \<times> run_state) + run_state" where
  "job_poll e job_id check_interval s =
     (let s' = s\<lparr>job_polls := job_polls s + 1\<rparr>
      in case jobs_retrieve e (job_polls s) job_id of
           None \<Rightarrow> monitor_except check_interval [Call_Jobs_Retrieve job_id] s'
         | Some job_info \<Rightarrow>
             (let status = job_status job_info
              in if status = ''succeeded''
                 then Inl (Inr True, emit [Call_Jobs_Retrieve job_id, Out (Job_Status status),
                                           Out Completed_Successfully,
                                           Out (Fine_Tuned_Model (fine_tuned_model job_info))] s')
                 else if status \<in> set [''failed'', ''cancelled'']
                 then Inl (Inr False, emit ([Call_Jobs_Retrieve job_id, Out (Job_Status status),
                                             Out (Failed_With_Status status)]
                                            @ (case job_error job_info of
                                                 None \<Rightarrow> []
                                               | Some err \<Rightarrow>
                                                   if err = [] then [] else [Out (Job_Error err)])) s')
                 else
                   (let evs = [Call_Jobs_Retrieve job_id, Out (Job_Status status)]
                              @ (case training_metrics job_info of
                                   None \<Rightarrow> []
                                 | Some metrics \<Rightarrow>
                                     if metrics = [] then [] else [Out (Current_Metrics metrics)])
                              @ [Out (Waiting_Seconds check_interval)]
                    in case sleep_error check_interval of
                         None \<Rightarrow> Inr (emit (evs @ [Sleep check_interval]) s')
                       | Some err \<Rightarrow> monitor_except check_interval evs s')))"

partial_function (option) monitor_loop ::
  "env \<Rightarrow> string \<Rightarrow> int \<Rightarrow> run_state \<Rightarrow> ((py_exception + bool) \<times> run_state) option" where
  "monitor_loop e job_id check_interval s =
     (case job_poll e job_id check_interval s of
        Inl result \<Rightarrow> Some result
      | Inr s' \<Rightarrow> monitor_loop e job_id check_interval s')"

text \<open>
  \<^verbatim>\<open>monitor_fine_tuning_job(client, job_id, check_interval)\<close>: \<open>None\<close> when it never
  ends; otherwise the bool it returns or the exception it raises, and the state left.
\<close>

definition monitor_fine_tuning_job ::
  "env \<Rightarrow> string \<Rightarrow> int \<Rightarrow> run_state \<Rightarrow> ((py_exception + bool) \<times> run_state) option" where
  "monitor_fine_tuning_job e job_id check_interval s =
     monitor_loop e job_id check_interval (emit [Out (Monitoring job_id)] s)"

subsection \<open>main\<close>

text \<open>How the process ends: \<^verbatim>\<open>sys.exit(1)\<close>, the end of \<^verbatim>\<open>main\<close>, or an uncaught exception.\<close>

datatype exit = Exit_1 | Returned | Uncaught py_exception

definition nonempty :: "string option \<Rightarrow> bool" where
  "nonempty x = (case x of None \<Rightarrow> False | Some v \<Rightarrow> v \<noteq> [])"

definition validate_step :: "env \<Rightarrow> string \<Rightarrow> run_state \<Rightarrow> bool \<times> run_state" where
  "validate_step e file_path s =
     (case validate_jsonl (files e) file_path of
        (ok, notices) \<Rightarrow> (ok, emit (map (\<lambda>n. Out (Validation n)) notices) s))"

text \<open>The part of \<^verbatim>\<open>main\<close> after the two validations: upload, wait, create, monitor.\<close>

definition submit_and_monitor ::
  "env \<Rightarrow> submit_args \<Rightarrow> string \<Rightarrow> string option \<Rightarrow> run_state \<Rightarrow> (exit \<times> run_state) option" where
  "submit_and_monitor e a training_file_id validation_file_id s =
     (case create_fine_tuning_job e a training_file_id validation_file_id s of
        (job_id, s1) \<Rightarrow>
          if \<not> nonempty job_id then Some (Exit_1, emit [Out Job_Creation_Failed] s1)
          else
            (case monitor_fine_tuning_job e (the job_id) 60 s1 of
               None \<Rightarrow> None
             | Some (Inr result, s2) \<Rightarrow> Some (Returned, s2)
             | Some (Inl err, s2) \<Rightarrow> Some (Uncaught err, s2)))"

definition stage_validation_file ::
  "env \<Rightarrow> submit_args \<Rightarrow> string \<Rightarrow> run_state \<Rightarrow> (exit \<times> run_state) option" where
  "stage_validation_file e a training_file_id s =
     (if nonempty (validation_file a) then
        (case upload_file e (the (validation_file a)) s of
           (validation_file_id, s1) \<Rightarrow>
             if \<not> nonempty validation_file_id
             then Some (Exit_1, emit [Out Validation_Upload_Failed] s1)
             else
               (case wait_for_file_processing e (the validation_file_id) 600 s1 of
                  None \<Rightarrow> None
                | Some (ready, s2) \<Rightarrow>
                    if \<not> ready then Some (Exit_1, emit [Out Validation_Processing_Failed] s2)
                    else submit_and_monitor e a training_file_id validation_file_id s2))
      else submit_and_monitor e a training_file_id None s)"

definition stage_training_file :: "env \<Rightarrow> submit_args \<Rightarrow> run_state \<Rightarrow> (exit \<times> run_state) option" where
  "stage_training_file e a s =
     (case upload_file e (training_file a) s of
        (training_file_id, s1) \<Rightarrow>
          if \<not> nonempty training_file_id then Some (Exit_1, emit [Out Training_Upload_Failed] s1)
          else
            (case wait_for_file_processing e (the training_file_id) 600 s1 of
               None \<Rightarrow> None
             | Some (ready, s2) \<Rightarrow>
                 if \<not> ready then Some (Exit_1, emit [Out Training_Processing_Failed] s2)
                 else stage_validation_file e a (the training_file_id) s2))"

definition initial_state :: run_state where
  "initial_state = \<lparr>readings = 0, file_polls = 0, job_polls = 0, trace = []\<rparr>"

text \<open>
  \<^verbatim>\<open>main()\<close> of submit\_fine\_tuning.py: how the process ends and the state it leaves,
  or \<open>None\<close> when it never ends.
\<close>

definition main :: "env \<Rightarrow> submit_args \<Rightarrow> (exit \<times> run_state) option" where
  "main e a =
     (if \<not> nonempty (openai_api_key a) \<and> \<not> nonempty (environ_api_key e)
      then Some (Exit_1, emit [Out Api_Key_Not_Provided] initial_state)
      else
        (case validate_step e (training_file a) initial_state of
           (ok, s1) \<Rightarrow>
             if \<not> ok then Some (Exit_1, emit [Out Training_Validation_Failed] s1)
             else if nonempty (validation_file a) then
               (case validate_step e (the (validation_file a)) s1 of
                  (ok', s2) \<Rightarrow>
                    if \<not> ok' then Some (Exit_1, emit [Out Validation_Validation_Failed] s2)
                    else stage_training_file e a s2)
             else stage_training_file e a s1))"

section \<open>Notions the properties are stated with\<close>

subsection \<open>Batch pipeline\<close>

text \<open>
  An upload fails when \<^verbatim>\<open>upload_image\<close> raises or returns \<^verbatim>\<open>None\<close>; otherwise it
  yields the hosted URL.
\<close>

definition upload_fails :: "args \<Rightarrow> world \<Rightarrow> string \<Rightarrow> bool" where
  "upload_fails a w image_file =
     (case upload_image a w image_file of Inl e \<Rightarrow> True | Inr image_url \<Rightarrow> image_url = JNull)"

definition hosted_url :: "args \<Rightarrow> world \<Rightarrow> string \<Rightarrow> json" where
  "hosted_url a w image_file =
     (case upload_image a w image_file of Inl e \<Rightarrow> JNull | Inr image_url \<Rightarrow> image_url)"

definition placeholder_url :: "string \<Rightarrow> json" where
  "placeholder_url image_file = JStr (''http://example.com/images/'' @ basename image_file)"

text \<open>The lines of the corpus file a run leaves behind, when it leaves one.\<close>

definition corpus :: "args \<Rightarrow> world \<Rightarrow> filesystem \<Rightarrow> line list option" where
  "corpus a w fs = (case process_images a w fs of Inl e \<Rightarrow> None | Inr fs' \<Rightarrow> fs' (output_file a))"

text \<open>
  The order in which the uploads of a run finish (earliest first, ties in submission
  order), and the examples a collector would gather by taking the uploads in that order.
\<close>

definition completion_order :: "world \<Rightarrow> string list \<Rightarrow> string list" where
  "completion_order w image_files = sort_key (finished_at w) image_files"

definition examples_in_completion_order :: "args \<Rightarrow> world \<Rightarrow> string list \<Rightarrow> json list" where
  "examples_in_completion_order a w image_files =
     training_examples a w (completion_order w image_files)"

text \<open>
  The scenario of three image paths, the second of which is not a readable image, with
  two workers in dry-run mode; the uploads finish in the order second, third, first.
\<close>

definition scenario_args :: args where
  "scenario_args =
     \<lparr>photos_dir = ''photos'', output_file = ''training_data.jsonl'',
      upload_endpoint = ''http://upload.test/api'', max_workers = 2, resize = 1024,
      api_key = None, dry_run = True\<rparr>"

definition scenario_files :: "string list" where
  "scenario_files = [''photos/a.jpg'', ''photos/b.jpg'', ''photos/c.png'']"

definition scenario_world :: world where
  "scenario_world =
     \<lparr>find_images = (\<lambda>d. if d = ''photos'' then scenario_files else []),
      open_image = (\<lambda>p. if p = ''photos/b.jpg'' then None
         else Some \<lparr>width = 480, height = 640, content = Decoded p, jpeg_mode = True\<rparr>),
      post = (\<lambda>endpoint filename img headers.
         Some \<lparr>status_code = 200,
               body = Some (JObj [(''url'', JStr (''http://cdn.test/'' @ filename))])\<rparr>),
      finished_at = (\<lambda>p. if p = ''photos/b.jpg'' then 1 else if p = ''photos/c.png'' then 2 else 3)\<rparr>"

definition live_args :: args where
  "live_args = scenario_args\<lparr>dry_run := False\<rparr>"

definition no_files :: filesystem where
  "no_files = (\<lambda>p. None)"

subsection \<open>URL extraction\<close>

text \<open>
  The member of a document under a key (\<open>None\<close> when the document is not an object or
  lacks the key), and the value at the end of a path of keys.
\<close>

definition field :: "json \<Rightarrow> string \<Rightarrow> json option" where
  "field v k = (case v of JObj kvs \<Rightarrow> map_of kvs k | _ \<Rightarrow> None)"

fun at_path :: "json \<Rightarrow> string list \<Rightarrow> json option" where
  "at_path v [] = Some v"
| "at_path v (k # ks) = (case field v k of None \<Rightarrow> None | Some v' \<Rightarrow> at_path v' ks)"

text \<open>
  The extraction as the specification words it: the paths \<^verbatim>\<open>url\<close>, \<^verbatim>\<open>data.url\<close> and
  \<^verbatim>\<open>image_url\<close> are tried in this order, the first non-empty value found is the URL, and
  there is none only if no path yields one.
\<close>

definition url_paths :: "string list list" where
  "url_paths = [[''url''], [''data'', ''url''], [''image_url'']]"

definition first_url_found :: "json \<Rightarrow> json option" where
  "first_url_found result =
     find truthy (List.map_filter (at_path result) url_paths)"

text \<open>A response body whose \<^verbatim>\<open>data\<close> member is null and whose \<^verbatim>\<open>image_url\<close> holds the URL.\<close>

definition null_data_body :: json where
  "null_data_body = JObj [(''data'', JNull), (''image_url'', JStr ''http://cdn.test/i.jpg'')]"

definition is_object :: "json \<Rightarrow> bool" where
  "is_object v = (case v of JObj kvs \<Rightarrow> True | _ \<Rightarrow> False)"

subsection \<open>Corpus validation\<close>

definition role_is :: "string \<Rightarrow> json \<Rightarrow> bool" where
  "role_is r m = (field m ''role'' = Some (JStr r))"

definition typed_image :: "json \<Rightarrow> bool" where
  "typed_image item = (field item ''type'' = Some (JStr ''image_url''))"

definition has_url :: "json \<Rightarrow> bool" where
  "has_url item =
     (case field item ''image_url'' of
        Some (JObj kvs) \<Rightarrow> (case map_of kvs ''url'' of Some (JStr u) \<Rightarrow> True | _ \<Rightarrow> False)
      | _ \<Rightarrow> False)"

text \<open>An image item of the corpus format: typed \<^verbatim>\<open>image_url\<close>, with a URL text in place.\<close>

definition well_formed_image_item :: "json \<Rightarrow> bool" where
  "well_formed_image_item item = (typed_image item \<and> has_url item)"

text \<open>
  A line as the claim describes it: a document with a list of at least two messages,
  among them some user message whose content is a list holding a well-formed image item,
  and some assistant message.
\<close>

definition image_user_message :: "json \<Rightarrow> bool" where
  "image_user_message m =
     (role_is ''user'' m \<and>
      (case field m ''content'' of
         Some (JArr items) \<Rightarrow> list_ex well_formed_image_item items
       | _ \<Rightarrow> False))"

definition claimed_valid_line :: "line \<Rightarrow> bool" where
  "claimed_valid_line row =
     (case row of
        None \<Rightarrow> False
      | Some data \<Rightarrow>
          (case field data ''messages'' of
             Some (JArr msgs) \<Rightarrow>
               2 \<le> length msgs \<and> list_ex image_user_message msgs
               \<and> list_ex (role_is ''assistant'') msgs
           | _ \<Rightarrow> False))"

text \<open>
  A line the code accepts: every message is an object with a role, the first user
  message has a list of objects as content, each item typed \<^verbatim>\<open>image_url\<close> in it is well
  formed and there is at least one, and there is an assistant message.
\<close>

definition first_user_has_image :: "json list \<Rightarrow> bool" where
  "first_user_has_image msgs =
     (case find (role_is ''user'') msgs of
        None \<Rightarrow> False
      | Some um \<Rightarrow>
          (case field um ''content'' of
             Some (JArr items) \<Rightarrow>
               list_all is_object items
               \<and> list_all (\<lambda>item. typed_image item \<longrightarrow> has_url item) items
               \<and> list_ex typed_image items
           | _ \<Rightarrow> False))"

definition accepted_line :: "line \<Rightarrow> bool" where
  "accepted_line row =
     (case row of
        None \<Rightarrow> False
      | Some data \<Rightarrow>
          (case field data ''messages'' of
             Some (JArr msgs) \<Rightarrow>
               2 \<le> length msgs
               \<and> list_all (\<lambda>m. field m ''role'' \<noteq> None) msgs
               \<and> first_user_has_image msgs
               \<and> list_ex (role_is ''assistant'') msgs
           | _ \<Rightarrow> False))"

text \<open>The warnings a file draws: one for each line whose first message is not a system message.\<close>

definition first_role :: "line \<Rightarrow> json option" where
  "first_role row =
     (case row of
        None \<Rightarrow> None
      | Some data \<Rightarrow>
          (case field data ''messages'' of
             Some (JArr (m # ms)) \<Rightarrow> field m ''role''
           | _ \<Rightarrow> None))"

fun warnings :: "nat \<Rightarrow> line list \<Rightarrow> notice list" where
  "warnings i [] = []"
| "warnings i (row # rows) =
     (if first_role row \<noteq> Some (JStr ''system'') then [Warning_Not_System (i + 1)] else [])
     @ warnings (i + 1) rows"

text \<open>Sample lines, and the file system that holds one corpus file.\<close>

definition image_item :: json where
  "image_item =
     JObj [(''type'', JStr ''image_url''),
           (''image_url'', JObj [(''url'', JStr ''http://cdn.test/a.jpg'')])]"

definition broken_image_item :: json where
  "broken_image_item = JObj [(''type'', JStr ''image_url'')]"

definition assistant_message :: json where
  "assistant_message = JObj [(''role'', JStr ''assistant''), (''content'', JStr ''This is a clamp.'')]"

definition text_first_line :: line where
  "text_first_line = Some (JObj [(''messages'', JArr
      [JObj [(''role'', JStr ''user''), (''content'', JStr ''What is this?'')],
       JObj [(''role'', JStr ''user''), (''content'', JArr [image_item])],
       assistant_message])])"

definition two_images_line :: line where
  "two_images_line = Some (JObj [(''messages'', JArr
      [JObj [(''role'', JStr ''user''), (''content'', JArr [image_item, broken_image_item])],
       assistant_message])])"

definition no_system_line :: line where
  "no_system_line = Some (JObj [(''messages'', JArr
      [JObj [(''role'', JStr ''user''), (''content'', JArr [image_item])],
       assistant_message])])"

definition file_of :: "line list \<Rightarrow> filesystem" where
  "file_of rows = (\<lambda>p. if p = ''training_data.jsonl'' then Some rows else None)"

subsection \<open>Staging and monitoring\<close>

text \<open>
  A status query that leaves the wait going: it raised, or the status is still
  \<^verbatim>\<open>pending\<close>. The trace of \<open>n\<close> such polls, from the poll numbered \<open>j\<close> on.
\<close>

definition still_pending :: "file_info option \<Rightarrow> bool" where
  "still_pending r = (case r of None \<Rightarrow> True | Some info \<Rightarrow> file_status info = ''pending'')"

fun waiting_trace :: "env \<Rightarrow> string \<Rightarrow> nat \<Rightarrow> nat \<Rightarrow> event list" where
  "waiting_trace e file_id j 0 = []"
| "waiting_trace e file_id j (Suc n) =
     [Call_Files_Retrieve file_id,
      Out (case files_retrieve e j file_id of
             None \<Rightarrow> Error_Checking_Status
           | Some info \<Rightarrow> File_Status (file_status info)),
      Sleep 5]
     @ waiting_trace e file_id (j + 1) n"

text \<open>
  A job query that ends the monitoring: the status is \<^verbatim>\<open>succeeded\<close>, \<^verbatim>\<open>failed\<close> or
  \<^verbatim>\<open>cancelled\<close>. What a poll that does not end it leaves in the trace, the trace of \<open>n\<close>
  such polls, and what the poll that ends it leaves.
\<close>

definition terminal :: "job_info option \<Rightarrow> bool" where
  "terminal r =
     (case r of
        None \<Rightarrow> False
      | Some info \<Rightarrow> job_status info \<in> set [''succeeded'', ''failed'', ''cancelled''])"

definition polling_events :: "string \<Rightarrow> int \<Rightarrow> job_info option \<Rightarrow> event list" where
  "polling_events job_id check_interval r =
     (case r of
        None \<Rightarrow> [Call_Jobs_Retrieve job_id, Out Error_Monitoring, Sleep check_interval]
      | Some info \<Rightarrow>
          [Call_Jobs_Retrieve job_id, Out (Job_Status (job_status info))]
          @ (if training_metrics info = None \<or> training_metrics info = Some [] then []
             else [Out (Current_Metrics (the (training_metrics info)))])
          @ [Out (Waiting_Seconds check_interval), Sleep check_interval])"

fun polling_trace :: "env \<Rightarrow> string \<Rightarrow> int \<Rightarrow> nat \<Rightarrow> nat \<Rightarrow> event list" where
  "polling_trace e job_id check_interval j 0 = []"
| "polling_trace e job_id check_interval j (Suc n) =
     polling_events job_id check_interval (jobs_retrieve e j job_id)
     @ polling_trace e job_id check_interval (j + 1) n"

definition terminal_events :: "string \<Rightarrow> job_info \<Rightarrow> event list" where
  "terminal_events job_id info =
     (if job_status info = ''succeeded''
      then [Call_Jobs_Retrieve job_id, Out (Job_Status ''succeeded''), Out Completed_Successfully,
            Out (Fine_Tuned_Model (fine_tuned_model info))]
      else [Call_Jobs_Retrieve job_id, Out (Job_Status (job_status info)),
            Out (Failed_With_Status (job_status info))]
           @ (if job_error info = None \<or> job_error info = Some [] then []
              else [Out (Job_Error (the (job_error info)))]))"

text \<open>
  A stub service: the job is queued, then running, then succeeded with the model
  \<^verbatim>\<open>m-123\<close>; a file stays pending, every second status query failing; the clock shows
  1000 at the start and five seconds more after each sleep. A stub whose job has
  succeeded with another model, \<^verbatim>\<open>m-456\<close>, a stub whose job runs for ever, a world in which no image opens, and the surroundings of a run of the
  second script on the corpus such a world leaves.
\<close>

definition queued_info :: job_info where
  "queued_info = \<lparr>job_status = ''queued'', fine_tuned_model = None, job_error = None,
                   training_metrics = None\<rparr>"

definition running_info :: job_info where
  "running_info = \<lparr>job_status = ''running'', fine_tuned_model = None, job_error = None,
                    training_metrics = None\<rparr>"

definition succeeded_info :: job_info where
  "succeeded_info = \<lparr>job_status = ''succeeded'', fine_tuned_model = Some ''m-123'',
                      job_error = None, training_metrics = None\<rparr>"

definition stub_env :: env where
  "stub_env =
     \<lparr>environ_api_key = Some ''sk-test'',
      files = file_of [no_system_line],
      clock = (\<lambda>k. 1000 + 5 * of_nat (k - 1)),
      files_create = (\<lambda>p. Some ''file-1''),
      files_retrieve = (\<lambda>k file_id.
         if even k then Some \<lparr>file_status = ''pending'', file_error = None\<rparr> else None),
      jobs_create = (\<lambda>p. Some ''job-1''),
      jobs_retrieve = (\<lambda>k job_id.
         if k = 0 then Some queued_info else if k = 1 then Some running_info
         else Some succeeded_info)\<rparr>"

definition other_model_env :: env where
  "other_model_env =
     stub_env\<lparr>jobs_retrieve := (\<lambda>k job_id.
        Some (succeeded_info\<lparr>fine_tuned_model := Some ''m-456''\<rparr>))\<rparr>"

definition running_env :: env where
  "running_env = stub_env\<lparr>jobs_retrieve := (\<lambda>k job_id. Some running_info)\<rparr>"

definition broken_world :: world where
  "broken_world = scenario_world\<lparr>open_image := (\<lambda>p. None)\<rparr>"

definition empty_corpus_env :: env where
  "empty_corpus_env = stub_env\<lparr>files := no_files(''training_data.jsonl'' := Some [])\<rparr>"

definition stub_submit_args :: submit_args where
  "stub_submit_args =
     \<lparr>training_file = ''training_data.jsonl'', validation_file = None, model = ''gpt-4o'',
      suffix = ''surgical-instruments'', openai_api_key = None, n_epochs = 3, batch_size = 1,
      learning_rate_multiplier = Finite 1\<rparr>"

section \<open>Verified properties\<close>

subsection \<open>Image Transform\<close>

text \<open>
  Claim C1: an image whose longer side is at most the maximum dimension comes back as
  an unmodified copy, in every orientation. The code does so only when the width does
  not exceed the height. For a landscape image within the bound, here 800 by 600 with
  the bound 1024, no branch binds the new dimensions, the call of \<^verbatim>\<open>img.resize\<close>
  raises, and the result is \<open>None\<close>; the same image turned to 600 by 800 is copied.
\<close>

theorem resize_image_landscape_within_bound:
  "resize_image (Some \<lparr>width = 800, height = 600, content = Decoded ''a.jpg'', jpeg_mode = True\<rparr>) 1024
     = None
   \<and> resize_image (Some \<lparr>width = 600, height = 800, content = Decoded ''a.jpg'', jpeg_mode = True\<rparr>) 1024
     = Some \<lparr>width = 600, height = 800, content = Decoded ''a.jpg'', jpeg_mode = True\<rparr>"
  by (simp add: resize_image_def resize_body_def resize_call_def)

lemma scaled_flat: "scaled 1 1024 3000 = Inr 0"
  by code_simp

lemma scaled_photo: "scaled 2000 1024 3000 = Inr 682"
  by code_simp

text \<open>
  Claim C5: an image whose longer side exceeds the maximum dimension \<open>M\<close> comes back
  with its longer side equal to \<open>M\<close> and its shorter side scaled by \<open>M\<close> over the longer
  side. An image of 3000 by 2000 with the bound 1024 does come back as 1024 by 682. For
  an image of 3000 by 1 the new height \<^verbatim>\<open>int(1 * (1024 / 3000))\<close> is 0, Pillow refuses the
  size (1024, 0), and the result is \<open>None\<close>.
\<close>

theorem resize_image_flat_image:
  "scaled 1 1024 3000 = Inr 0
   \<and> resize_image (Some \<lparr>width = 3000, height = 1, content = Decoded ''a.jpg'', jpeg_mode = True\<rparr>) 1024
       = None
   \<and> resize_image (Some \<lparr>width = 3000, height = 2000, content = Decoded ''a.jpg'', jpeg_mode = True\<rparr>) 1024
       = Some \<lparr>width = 1024, height = 682, content = Resampled (Decoded ''a.jpg'') (1024, 682),
               jpeg_mode = True\<rparr>"
  by (simp add: resize_image_def resize_body_def resize_call_def pil_resize_def scaled_flat
      scaled_photo)

subsection \<open>Upload Worker: URL extraction\<close>

lemma extract_url_truthy: "extract_url result = Inr u \<Longrightarrow> truthy u"
  by (auto simp: extract_url_def split: sum.splits if_splits)

lemma upload_image_truthy: "upload_image a w f = Inr u \<Longrightarrow> u = JNull \<or> truthy u"
  by (auto simp: upload_image_def post_image_def split: sum.splits if_splits option.splits
      dest: extract_url_truthy)

text \<open>
  Wherever the body is an object whose \<^verbatim>\<open>data\<close> member is absent or an object itself, the
  code finds what the three paths, tried in order, find first, and raises \<^verbatim>\<open>ValueError\<close>
  when they find nothing.
\<close>

lemma extract_url_agrees:
  assumes "is_object result"
    and "case field result ''data'' of None \<Rightarrow> True | Some d \<Rightarrow> is_object d"
  shows "extract_url result = (case first_url_found result of None \<Rightarrow> Inl ValueError | Some u \<Rightarrow> Inr u)"
  using assms
  by (auto simp: is_object_def extract_url_def py_get_def first_url_found_def url_paths_def
      field_def split: json.splits option.splits)

text \<open>
  Claim C8: the worker tries \<^verbatim>\<open>url\<close>, \<^verbatim>\<open>data.url\<close> and \<^verbatim>\<open>image_url\<close> in this order, returns
  the first non-empty value and fails only if none of the three yields a URL. For the
  body \<^verbatim>\<open>{"data": null, "image_url": "http://cdn.test/i.jpg"}\<close> the third path yields
  a URL, yet the code raises \<^verbatim>\<open>AttributeError\<close> at \<^verbatim>\<open>.get('url')\<close> on the null and
  never reaches the third path.
\<close>

theorem extract_url_null_data:
  "first_url_found null_data_body = Some (JStr ''http://cdn.test/i.jpg'')
   \<and> extract_url null_data_body = Inl AttributeError"
  by (simp add: first_url_found_def url_paths_def null_data_body_def field_def
      extract_url_def py_get_def)

subsection \<open>Concurrent Batch Pipeline\<close>

lemma training_examples_filter:
  "training_examples a w fs =
     map (\<lambda>f. create_training_example f (hosted_url a w f)) (filter (\<lambda>f. \<not> upload_fails a w f) fs)"
proof (induction fs)
  case Nil
  then show ?case by simp
next
  case (Cons f fs)
  show ?case
  proof (cases "upload_image a w f")
    case (Inl e)
    then show ?thesis using Cons by (simp add: upload_fails_def)
  next
    case (Inr u)
    with upload_image_truthy [OF Inr] show ?thesis
      using Cons by (auto simp: upload_fails_def hosted_url_def)
  qed
qed

lemma length_training_examples:
  "length (training_examples a w fs) = length fs - length (filter (upload_fails a w) fs)"
proof -
  have "length fs = length (filter (upload_fails a w) fs) + length (filter (\<lambda>f. \<not> upload_fails a w f) fs)"
    by (rule sum_length_filter_compl [symmetric])
  then show ?thesis by (simp add: training_examples_filter)
qed

lemma corpus_eq:
  "0 < max_workers a \<Longrightarrow>
   corpus a w fs = Some (map json_dumps (training_examples a w (find_images w (photos_dir a))))"
  by (simp add: corpus_def process_images_def)

lemma scenario_uploads:
  "upload_image live_args scenario_world ''photos/a.jpg'' = Inr (JStr ''http://cdn.test/a.jpg'')"
  "upload_image live_args scenario_world ''photos/b.jpg'' = Inr JNull"
  "upload_image live_args scenario_world ''photos/c.png'' = Inr (JStr ''http://cdn.test/c.png'')"
  by (simp_all add: upload_image_def live_args_def scenario_args_def scenario_world_def
      resize_image_def resize_body_def post_image_def request_headers_def basename_def
      extract_url_def py_get_def)

lemma scenario_found:
  "find_images scenario_world (photos_dir live_args) = scenario_files"
  "find_images scenario_world (photos_dir scenario_args) = scenario_files"
  by (simp_all add: live_args_def scenario_args_def scenario_world_def)

text \<open>
  Claim C3: over \<open>N\<close> input paths of which \<open>K\<close> uploads fail, the batch does not abort, the
  corpus has exactly \<open>N - K\<close> records, and it is empty exactly when all uploads fail. A
  run is one whose pool exists, that is with at least one worker.
\<close>

theorem batch_drops_failed_items:
  assumes "0 < max_workers a"
  shows "\<exists>lines. corpus a w fs = Some lines
     \<and> length lines = length (find_images w (photos_dir a))
          - length (filter (upload_fails a w) (find_images w (photos_dir a)))
     \<and> (lines = []) = (length (filter (upload_fails a w) (find_images w (photos_dir a)))
          = length (find_images w (photos_dir a)))"
proof -
  let ?files = "find_images w (photos_dir a)"
  let ?lines = "map json_dumps (training_examples a w ?files)"
  have k: "length (filter (upload_fails a w) ?files) \<le> length ?files" by (rule length_filter_le)
  have "(?lines = []) = (length (training_examples a w ?files) = 0)" by simp
  also have "\<dots> = (length (filter (upload_fails a w) ?files) = length ?files)"
    unfolding length_training_examples using k by arith
  finally show ?thesis
    using corpus_eq [OF assms, of w fs] by (simp add: length_training_examples)
qed

theorem batch_drops_failed_items_witness:
  "0 < max_workers live_args
   \<and> length (find_images scenario_world (photos_dir live_args)) = 3
   \<and> length (filter (upload_fails live_args scenario_world)
        (find_images scenario_world (photos_dir live_args))) = 1
   \<and> map_option length (corpus live_args scenario_world no_files) = Some 2"
proof -
  have m: "0 < max_workers live_args" by (simp add: live_args_def scenario_args_def)
  have k: "length (filter (upload_fails live_args scenario_world) scenario_files) = 1"
    by (simp add: scenario_files_def upload_fails_def scenario_uploads)
  have n: "length scenario_files = 3" by (simp add: scenario_files_def)
  from batch_drops_failed_items [OF m, of scenario_world no_files]
  obtain lines where "corpus live_args scenario_world no_files = Some lines"
    and "length lines = length scenario_files
           - length (filter (upload_fails live_args scenario_world) scenario_files)"
    unfolding scenario_found by blast
  then show ?thesis using m by (simp add: scenario_found k n)
qed

text \<open>
  Claim C2, as stated: in dry-run mode, on three image paths of which one fails to
  decode, with two workers, the corpus has exactly two records. In dry-run mode
  \<^verbatim>\<open>upload_image\<close> returns the placeholder before any image is opened, so the corpus of
  the scenario has three records.
\<close>

theorem dry_run_keeps_undecodable_image:
  "dry_run scenario_args \<and> max_workers scenario_args = 2
   \<and> find_images scenario_world (photos_dir scenario_args)
       = [''photos/a.jpg'', ''photos/b.jpg'', ''photos/c.png'']
   \<and> open_image scenario_world ''photos/b.jpg'' = None
   \<and> map_option length (corpus scenario_args scenario_world no_files) = Some 3"
  by (simp add: corpus_def process_images_def scenario_args_def scenario_world_def scenario_files_def
      upload_image_def)

lemma dry_run_examples:
  "dry_run a \<Longrightarrow> training_examples a w fs = map (\<lambda>f. create_training_example f (placeholder_url f)) fs"
  by (induction fs) (simp_all add: upload_image_def placeholder_url_def)

text \<open>
  Claim C2, amended: in dry-run mode every image path found, readable or not, gives one
  record, in the order found, and the record holds the placeholder URL made from the
  file name of the path; on the three paths of the scenario the corpus has three records.
\<close>

theorem dry_run_corpus:
  assumes "dry_run a" "0 < max_workers a"
  shows "corpus a w fs = Some (map (\<lambda>f. json_dumps (create_training_example f (placeholder_url f)))
           (find_images w (photos_dir a)))"
  using assms by (simp add: corpus_eq dry_run_examples)

theorem dry_run_corpus_witness:
  "dry_run scenario_args \<and> 0 < max_workers scenario_args
   \<and> corpus scenario_args scenario_world no_files
     = Some [json_dumps (create_training_example ''photos/a.jpg'' (JStr ''http://example.com/images/a.jpg'')),
             json_dumps (create_training_example ''photos/b.jpg'' (JStr ''http://example.com/images/b.jpg'')),
             json_dumps (create_training_example ''photos/c.png'' (JStr ''http://example.com/images/c.png''))]"
proof -
  have d: "dry_run scenario_args" and m: "0 < max_workers scenario_args"
    by (simp_all add: scenario_args_def)
  show ?thesis
    using dry_run_corpus [OF d m, of scenario_world no_files] d m
    by (simp add: scenario_found scenario_files_def placeholder_url_def basename_def)
qed

lemma example_url_inject:
  "create_training_example f u = create_training_example g v \<Longrightarrow> u = v"
  by (simp add: create_training_example_def Let_def)

lemma scenario_examples:
  "training_examples live_args scenario_world [''photos/a.jpg'', ''photos/b.jpg'', ''photos/c.png'']
     = [create_training_example ''photos/a.jpg'' (JStr ''http://cdn.test/a.jpg''),
        create_training_example ''photos/c.png'' (JStr ''http://cdn.test/c.png'')]"
  by (simp add: scenario_uploads)

lemma scenario_examples_completion:
  "training_examples live_args scenario_world [''photos/b.jpg'', ''photos/c.png'', ''photos/a.jpg'']
     = [create_training_example ''photos/c.png'' (JStr ''http://cdn.test/c.png''),
        create_training_example ''photos/a.jpg'' (JStr ''http://cdn.test/a.jpg'')]"
  by (simp add: scenario_uploads)

text \<open>
  Claim C4, as stated: the records of the corpus are in the order in which the uploads
  complete. In the scenario the upload of \<^verbatim>\<open>c.png\<close> completes before that of \<^verbatim>\<open>a.jpg\<close>,
  and the corpus still lists the record of \<^verbatim>\<open>a.jpg\<close> first.
\<close>

theorem corpus_not_in_completion_order:
  "completion_order scenario_world scenario_files = [''photos/b.jpg'', ''photos/c.png'', ''photos/a.jpg'']
   \<and> corpus live_args scenario_world no_files
       \<noteq> Some (map json_dumps (examples_in_completion_order live_args scenario_world scenario_files))"
proof -
  have c: "completion_order scenario_world scenario_files = [''photos/b.jpg'', ''photos/c.png'', ''photos/a.jpg'']"
    by (simp add: completion_order_def scenario_world_def scenario_files_def)
  have m: "0 < max_workers live_args" by (simp add: live_args_def scenario_args_def)
  have "create_training_example ''photos/a.jpg'' (JStr ''http://cdn.test/a.jpg'')
        \<noteq> create_training_example ''photos/c.png'' (JStr ''http://cdn.test/c.png'')"
    using example_url_inject [of "''photos/a.jpg''" "JStr ''http://cdn.test/a.jpg''"
        "''photos/c.png''" "JStr ''http://cdn.test/c.png''"] by auto
  then have "training_examples live_args scenario_world scenario_files
     \<noteq> examples_in_completion_order live_args scenario_world scenario_files"
    unfolding examples_in_completion_order_def c
    by (simp add: scenario_files_def scenario_examples scenario_examples_completion
        del: training_examples.simps)
  then show ?thesis
    by (simp add: c corpus_eq [OF m] scenario_found json_dumps_def
        inj_map_eq_map [unfolded inj_on_def] del: training_examples.simps)
qed

text \<open>
  Claim C4, amended: the records of the corpus are in the submission order of the image
  paths, one for each path whose upload succeeded, whatever the instants at which the
  uploads complete.
\<close>

theorem corpus_in_submission_order:
  "process_images a w fs =
     (if max_workers a \<le> 0 then Inl ValueError
      else Inr (fs(output_file a := Some (map (\<lambda>f. json_dumps (create_training_example f (hosted_url a w f)))
              (filter (\<lambda>f. \<not> upload_fails a w f) (find_images w (photos_dir a)))))))
   \<and> process_images a (w\<lparr>finished_at := t\<rparr>) fs = process_images a w fs"
proof -
  have p: "post_image a (w\<lparr>finished_at := t\<rparr>) f img = post_image a w f img" for f img
    by (simp add: post_image_def)
  have u: "upload_image a (w\<lparr>finished_at := t\<rparr>) f = upload_image a w f" for f
    by (simp add: upload_image_def p split: option.splits)
  have "training_examples a (w\<lparr>finished_at := t\<rparr>) xs = training_examples a w xs" for xs
    by (induction xs) (simp_all add: u split: sum.splits)
  then show ?thesis
    by (simp add: process_images_def training_examples_filter comp_def)
qed

subsection \<open>Corpus validation\<close>

lemma find_role_find:
  "list_all (\<lambda>m. field m ''role'' \<noteq> None) msgs \<Longrightarrow> find_role r msgs = Inr (find (role_is r) msgs)"
  by (induction msgs) (auto simp: field_def role_is_def split: json.splits option.splits)

lemma found_message_truthy: "find (role_is r) msgs = Some m \<Longrightarrow> truthy m"
  by (induction msgs) (auto simp: role_is_def field_def split: json.splits if_splits)

lemma scan_content_ok:
  "list_all is_object items \<Longrightarrow> list_all (\<lambda>item. typed_image item \<longrightarrow> has_url item) items
   \<Longrightarrow> scan_content items b = Inr (Some (b \<or> list_ex typed_image items))"
  by (induction items arbitrary: b)
     (auto simp: is_object_def typed_image_def has_url_def field_def py_get_def
        image_item_invalid_def split: json.splits option.splits)

lemma check_assistant_ok:
  assumes "list_all (\<lambda>m. field m ''role'' \<noteq> None) msgs" "list_ex (role_is ''assistant'') msgs"
  shows "check_assistant n msgs = ([], Passed)"
proof -
  from assms(2) obtain m where m: "find (role_is ''assistant'') msgs = Some m"
    by (cases "find (role_is ''assistant'') msgs") (auto simp: find_None_iff list_ex_iff)
  show ?thesis
    using found_message_truthy [OF m]
    by (simp add: check_assistant_def find_role_find [OF assms(1)] m)
qed

lemma check_user_ok:
  assumes "list_all (\<lambda>m. field m ''role'' \<noteq> None) msgs" "first_user_has_image msgs"
    "list_ex (role_is ''assistant'') msgs"
  shows "check_user n msgs = ([], Passed)"
proof -
  from assms(2) obtain um items where um: "find (role_is ''user'') msgs = Some um"
    and c: "field um ''content'' = Some (JArr items)"
    and i: "list_all is_object items" "list_all (\<lambda>item. typed_image item \<longrightarrow> has_url item) items"
      "list_ex typed_image items"
    by (auto simp: first_user_has_image_def split: option.splits json.splits)
  from c have s: "py_subscript um ''content'' = Inr (JArr items)"
    by (cases um) (auto simp: field_def)
  show ?thesis
    using found_message_truthy [OF um] i(3)
    by (simp add: check_user_def find_role_find [OF assms(1)] um s scan_content_ok [OF i(1,2)]
        check_assistant_ok [OF assms(1,3)])
qed

lemma check_line_ok:
  assumes "accepted_line row"
  shows "check_line i row = (warnings i [row], True)"
proof -
  from assms obtain data msgs where row: "row = Some data"
    and f: "field data ''messages'' = Some (JArr msgs)"
    and l: "2 \<le> length msgs"
    and r: "list_all (\<lambda>m. field m ''role'' \<noteq> None) msgs"
    and u: "first_user_has_image msgs" and a: "list_ex (role_is ''assistant'') msgs"
    by (auto simp: accepted_line_def split: option.splits json.splits)
  from f obtain kvs where data: "data = JObj kvs" "map_of kvs ''messages'' = Some (JArr msgs)"
    by (cases data) (auto simp: field_def)
  from l obtain m ms where msgs: "msgs = m # ms" by (cases msgs) auto
  from r msgs obtain v where v: "field m ''role'' = Some v" by auto
  then have s: "py_subscript m ''role'' = Inr v" by (cases m) (auto simp: field_def)
  have fr: "first_role row = Some v" using v by (simp add: first_role_def row f msgs)
  have "check_messages (i + 1) (JArr msgs) =
          ((if v \<noteq> JStr ''system'' then [Warning_Not_System (i + 1)] else []), Passed)"
    using l check_user_ok [OF r u a, of "Suc i"] by (auto simp: check_messages_def msgs s)
  then show ?thesis
    using fr by (simp add: check_line_def row data check_data_def)
qed

lemma check_lines_ok:
  "list_all accepted_line rows \<Longrightarrow> check_lines i rows = (warnings i rows, True)"
  by (induction rows arbitrary: i) (simp_all add: check_line_ok)

text \<open>
  Claim C10, as stated: validation succeeds for any file whose every line has a list of
  at least two messages with some user message holding a well-formed image item and
  some assistant message. Three files of that kind are rejected: one whose first user
  message has a text as content (the image is in the second), one whose user message
  holds a well-formed and a malformed image item, and the file without lines.
\<close>

theorem validate_rejects_claimed_lines:
  "list_all claimed_valid_line [text_first_line]
   \<and> validate_jsonl (file_of [text_first_line]) ''training_data.jsonl''
       = (False, [Validating ''training_data.jsonl'', Warning_Not_System 1, Error_Content_Not_List 1])
   \<and> list_all claimed_valid_line [two_images_line]
   \<and> validate_jsonl (file_of [two_images_line]) ''training_data.jsonl''
       = (False, [Validating ''training_data.jsonl'', Warning_Not_System 1, Error_Invalid_Image_Url 1])
   \<and> list_all claimed_valid_line []
   \<and> validate_jsonl (file_of []) ''training_data.jsonl''
       = (False, [Validating ''training_data.jsonl'', Error_Empty ''training_data.jsonl''])"
  by (simp add: claimed_valid_line_def text_first_line_def two_images_line_def field_def
      image_user_message_def role_is_def well_formed_image_item_def typed_image_def has_url_def
      image_item_def broken_image_item_def assistant_message_def validate_jsonl_def file_of_def
      check_line_def check_data_def check_messages_def check_user_def py_get_def
      image_item_invalid_def)

text \<open>
  Claim C10, amended: validation succeeds for any file with at least one line whose every
  line is a document with a list of at least two messages, each an object with a role,
  in which the first user message has a list of objects as content, every item typed
  \<^verbatim>\<open>image_url\<close> in that list is well formed and there is at least one, and some message
  is an assistant message. The only notices besides the opening and the closing one are
  the warnings for the lines whose first message is not a system message.
\<close>

theorem validate_accepts:
  assumes "fs p = Some rows" "rows \<noteq> []" "list_all accepted_line rows"
  shows "validate_jsonl fs p =
     (True, Validating p # warnings 0 rows @ [Validation_Successful p (length rows)])"
  using assms by (simp add: validate_jsonl_def check_lines_ok)

theorem validate_accepts_witness:
  "file_of [json_dumps (create_training_example ''photos/a.jpg'' (JStr ''http://cdn.test/a.jpg'')),
            no_system_line] ''training_data.jsonl''
     = Some [json_dumps (create_training_example ''photos/a.jpg'' (JStr ''http://cdn.test/a.jpg'')),
             no_system_line]
   \<and> list_all accepted_line
        [json_dumps (create_training_example ''photos/a.jpg'' (JStr ''http://cdn.test/a.jpg'')),
         no_system_line]
   \<and> validate_jsonl
        (file_of [json_dumps (create_training_example ''photos/a.jpg'' (JStr ''http://cdn.test/a.jpg'')),
                  no_system_line]) ''training_data.jsonl''
     = (True, [Validating ''training_data.jsonl'', Warning_Not_System 2,
               Validation_Successful ''training_data.jsonl'' 2])"
proof -
  let ?first = "json_dumps (create_training_example ''photos/a.jpg'' (JStr ''http://cdn.test/a.jpg''))"
  have f: "file_of [?first, no_system_line] ''training_data.jsonl'' = Some [?first, no_system_line]"
    by (simp add: file_of_def)
  have a1: "accepted_line ?first"
    by (simp add: accepted_line_def json_dumps_def create_training_example_def field_def
        first_user_has_image_def role_is_def is_object_def typed_image_def has_url_def Let_def)
  have a2: "accepted_line no_system_line"
    by (simp add: accepted_line_def no_system_line_def field_def first_user_has_image_def
        role_is_def image_item_def assistant_message_def is_object_def typed_image_def has_url_def)
  have a: "list_all accepted_line [?first, no_system_line]" using a1 a2 by simp
  have w: "warnings 0 [?first, no_system_line] = [Warning_Not_System 2]"
    by (simp add: json_dumps_def create_training_example_def field_def first_role_def
        no_system_line_def Let_def)
  have n: "[?first, no_system_line] \<noteq> []" by simp
  show ?thesis
    using validate_accepts [of "file_of [?first, no_system_line]" "''training_data.jsonl''"
        "[?first, no_system_line]", OF f n a] f a
    by (simp only: w) simp
qed

subsection \<open>Remote File Stager\<close>

lemma file_poll_pending:
  assumes "still_pending (files_retrieve e (file_polls s) file_id)"
  shows "file_poll e file_id s =
     Inr (s\<lparr>file_polls := file_polls s + 1,
            trace := trace s @ waiting_trace e file_id (file_polls s) 1\<rparr>)"
  using assms
  by (auto simp: file_poll_def still_pending_def emit_def Let_def split: option.splits)

lemma wait_loop_pending:
  assumes "\<forall>k. still_pending (files_retrieve e k file_id)"
    and "\<forall>i<n. clock e (readings s + i) - start_time < timeout"
    and "timeout \<le> clock e (readings s + n) - start_time"
  shows "wait_loop e file_id start_time timeout s =
     Some (False, s\<lparr>readings := readings s + n + 1, file_polls := file_polls s + n,
                    trace := trace s @ waiting_trace e file_id (file_polls s) n
                             @ [Out (Timeout_Waiting file_id)]\<rparr>)"
  using assms(2,3)
proof (induction n arbitrary: s)
  case 0
  then show ?case
    by (subst wait_loop.simps) (simp add: emit_def)
next
  case (Suc n)
  let ?s1 = "s\<lparr>readings := readings s + 1\<rparr>"
  let ?s2 = "?s1\<lparr>file_polls := file_polls ?s1 + 1,
            trace := trace ?s1 @ waiting_trace e file_id (file_polls ?s1) 1\<rparr>"
  from Suc.prems(1) have now: "clock e (readings s) - start_time < timeout"
    by (metis add.right_neutral zero_less_Suc)
  have p: "file_poll e file_id ?s1 = Inr ?s2"
    using assms(1) by (intro file_poll_pending) simp
  have b: "\<forall>i<n. clock e (readings ?s2 + i) - start_time < timeout"
  proof (intro allI impI)
    fix i assume "i < n"
    then have "Suc i < Suc n" by simp
    with Suc.prems(1) have "clock e (readings s + Suc i) - start_time < timeout" by blast
    then show "clock e (readings ?s2 + i) - start_time < timeout" by simp
  qed
  have r: "timeout \<le> clock e (readings ?s2 + n) - start_time"
    using Suc.prems(2) by simp
  have step: "wait_loop e file_id start_time timeout s = wait_loop e file_id start_time timeout ?s2"
    by (subst wait_loop.simps) (simp only: now p if_True sum.case)
  have ih: "wait_loop e file_id start_time timeout ?s2 =
     Some (False, ?s2\<lparr>readings := readings ?s2 + n + 1, file_polls := file_polls ?s2 + n,
                    trace := trace ?s2 @ waiting_trace e file_id (file_polls ?s2) n
                             @ [Out (Timeout_Waiting file_id)]\<rparr>)"
    by (rule Suc.IH [OF b r])
  show ?case unfolding step ih by simp
qed

text \<open>
  Under a status that never leaves \<^verbatim>\<open>pending\<close>, a wait that returns has seen a reading of
  the clock at or beyond the timeout: it cannot return earlier.
\<close>

lemma wait_loop_needs_timeout:
  assumes "wait_loop e file_id start_time timeout s = Some y"
    and "\<forall>k. still_pending (files_retrieve e k file_id)"
  shows "\<exists>n. timeout \<le> clock e (readings s + n) - start_time"
proof -
  define P where "P \<equiv> \<lambda>(e::env) (file_id::string) (start_time::rat) (timeout::rat) (s::run_state)
       (y::bool \<times> run_state).
     (\<forall>k. still_pending (files_retrieve e k file_id))
       \<longrightarrow> (\<exists>n. timeout \<le> clock e (readings s + n) - start_time)"
  have "P e file_id start_time timeout s y"
  proof (rule wait_loop.raw_induct [where P = P, OF _ assms(1)])
    fix f e file_id start_time timeout s and y :: "bool \<times> run_state"
    assume ih: "\<And>e file_id start_time timeout s y.
        f e file_id start_time timeout s = Some y \<Longrightarrow> P e file_id start_time timeout s y"
      and eq: "(if clock e (readings s) - start_time < timeout
          then case file_poll e file_id (s\<lparr>readings := readings s + 1\<rparr>) of
                 Inl result \<Rightarrow> Some result
               | Inr s' \<Rightarrow> f e file_id start_time timeout s'
          else Some (False, emit [Out (Timeout_Waiting file_id)] (s\<lparr>readings := readings s + 1\<rparr>)))
         = Some y"
    show "P e file_id start_time timeout s y"
      unfolding P_def
    proof (intro impI)
      assume pend: "\<forall>k. still_pending (files_retrieve e k file_id)"
      show "\<exists>n. timeout \<le> clock e (readings s + n) - start_time"
      proof (cases "clock e (readings s) - start_time < timeout")
        case False
        then have "timeout \<le> clock e (readings s + 0) - start_time" by simp
        then show ?thesis by blast
      next
        case True
        let ?s1 = "s\<lparr>readings := readings s + 1\<rparr>"
        let ?s2 = "?s1\<lparr>file_polls := file_polls ?s1 + 1,
            trace := trace ?s1 @ waiting_trace e file_id (file_polls ?s1) 1\<rparr>"
        have p: "file_poll e file_id ?s1 = Inr ?s2"
          using pend by (intro file_poll_pending) simp
        from eq have "f e file_id start_time timeout ?s2 = Some y"
          by (simp only: True if_True p sum.case)
        then have "P e file_id start_time timeout ?s2 y" by (rule ih)
        with pend obtain n where "timeout \<le> clock e (readings ?s2 + n) - start_time"
          unfolding P_def by blast
        then have "timeout \<le> clock e (readings s + Suc n) - start_time" by simp
        then show ?thesis by blast
      qed
    qed
  qed
  with assms(2) show ?thesis unfolding P_def by blast
qed

text \<open>
  Claim C7: when the status never leaves \<^verbatim>\<open>pending\<close> (a query that raises counts as
  still waiting), the wait fails with a timeout at or after the configured timeout,
  never before. With \<open>n\<close> the number of loop tests that read an elapsed time below
  the timeout before the first one that reads the timeout or more, the wait makes
  exactly \<open>n\<close> status queries, each followed by a sleep of five seconds whether it
  answered or raised, and returns False with the timeout message at that reading.
\<close>

theorem wait_times_out:
  assumes "\<forall>k. still_pending (files_retrieve e k file_id)"
    and "\<forall>i<n. clock e (readings s + 1 + i) - clock e (readings s) < timeout"
    and "timeout \<le> clock e (readings s + 1 + n) - clock e (readings s)"
  shows "wait_for_file_processing e file_id timeout s =
     Some (False, s\<lparr>readings := readings s + n + 2, file_polls := file_polls s + n,
                    trace := trace s @ [Out (Waiting_For_File file_id)]
                             @ waiting_trace e file_id (file_polls s) n
                             @ [Out (Timeout_Waiting file_id)]\<rparr>)"
proof -
  let ?s0 = "emit [Out (Waiting_For_File file_id)] (s\<lparr>readings := readings s + 1\<rparr>)"
  have b: "\<forall>i<n. clock e (readings ?s0 + i) - clock e (readings s) < timeout"
    using assms(2) by (simp add: emit_def)
  have r: "timeout \<le> clock e (readings ?s0 + n) - clock e (readings s)"
    using assms(3) by (simp add: emit_def)
  have "wait_loop e file_id (clock e (readings s)) timeout ?s0 =
     Some (False, ?s0\<lparr>readings := readings ?s0 + n + 1, file_polls := file_polls ?s0 + n,
                    trace := trace ?s0 @ waiting_trace e file_id (file_polls ?s0) n
                             @ [Out (Timeout_Waiting file_id)]\<rparr>)"
    by (rule wait_loop_pending [OF assms(1) b r])
  then show ?thesis
    unfolding wait_for_file_processing_def by (simp add: emit_def)
qed


theorem wait_times_out_witness:
  "wait_for_file_processing stub_env ''file-1'' 12 initial_state =
     Some (False,
       \<lparr>readings = 5, file_polls = 3, job_polls = 0,
        trace = [Out (Waiting_For_File ''file-1''),
                 Call_Files_Retrieve ''file-1'', Out (File_Status ''pending''), Sleep 5,
                 Call_Files_Retrieve ''file-1'', Out Error_Checking_Status, Sleep 5,
                 Call_Files_Retrieve ''file-1'', Out (File_Status ''pending''), Sleep 5,
                 Out (Timeout_Waiting ''file-1'')]\<rparr>)
   \<and> clock stub_env 4 - clock stub_env 0 = 15
   \<and> clock stub_env 3 - clock stub_env 0 = 10"
proof -
  have pend: "\<forall>k. still_pending (files_retrieve stub_env k ''file-1'')"
    by (simp add: still_pending_def stub_env_def)
  have before: "\<forall>i<3. clock stub_env (readings initial_state + 1 + i)
                        - clock stub_env (readings initial_state) < 12"
  proof (intro allI impI)
    fix i :: nat assume "i < 3"
    then have "i = 0 \<or> i = 1 \<or> i = 2" by auto
    then show "clock stub_env (readings initial_state + 1 + i)
                 - clock stub_env (readings initial_state) < 12"
      by (auto simp: stub_env_def initial_state_def)
  qed
  have reached: "12 \<le> clock stub_env (readings initial_state + 1 + 3)
                       - clock stub_env (readings initial_state)"
    by (simp add: stub_env_def initial_state_def)
  have t: "waiting_trace stub_env ''file-1'' 0 3 =
     [Call_Files_Retrieve ''file-1'', Out (File_Status ''pending''), Sleep 5,
      Call_Files_Retrieve ''file-1'', Out Error_Checking_Status, Sleep 5,
      Call_Files_Retrieve ''file-1'', Out (File_Status ''pending''), Sleep 5]"
    by (simp add: numeral_3_eq_3 stub_env_def)
  have c: "clock stub_env 4 - clock stub_env 0 = 15" "clock stub_env 3 - clock stub_env 0 = 10"
    by (simp_all add: stub_env_def)
  show ?thesis
    using wait_times_out [OF pend before reached] c
    by (simp add: t initial_state_def)
qed


subsection \<open>Job Lifecycle Controller\<close>

lemma job_poll_continue:
  assumes "\<not> terminal (jobs_retrieve e (job_polls s) job_id)" "sleep_error ci = None"
  shows "job_poll e job_id ci s =
     Inr (s\<lparr>job_polls := job_polls s + 1,
            trace := trace s @ polling_events job_id ci (jobs_retrieve e (job_polls s) job_id)\<rparr>)"
  using assms
  by (auto simp: job_poll_def monitor_except_def terminal_def polling_events_def emit_def Let_def
      split: option.splits)

lemma job_poll_terminal:
  assumes "jobs_retrieve e (job_polls s) job_id = Some info" "terminal (Some info)"
  shows "job_poll e job_id ci s =
     Inl (Inr (job_status info = ''succeeded''),
          s\<lparr>job_polls := job_polls s + 1, trace := trace s @ terminal_events job_id info\<rparr>)"
  using assms
  by (auto simp: job_poll_def terminal_def terminal_events_def emit_def Let_def split: option.splits)

lemma monitor_loop_returns:
  assumes "\<forall>i<n. \<not> terminal (jobs_retrieve e (job_polls s + i) job_id)"
    and "jobs_retrieve e (job_polls s + n) job_id = Some info" "terminal (Some info)"
    and "sleep_error ci = None"
  shows "monitor_loop e job_id ci s =
     Some (Inr (job_status info = ''succeeded''),
           s\<lparr>job_polls := job_polls s + n + 1,
             trace := trace s @ polling_trace e job_id ci (job_polls s) n
                      @ terminal_events job_id info\<rparr>)"
  using assms(1,2)
proof (induction n arbitrary: s)
  case 0
  then have r: "jobs_retrieve e (job_polls s) job_id = Some info" by simp
  show ?case
    by (subst monitor_loop.simps) (simp add: job_poll_terminal [OF r assms(3)])
next
  case (Suc n)
  let ?s1 = "s\<lparr>job_polls := job_polls s + 1,
            trace := trace s @ polling_events job_id ci (jobs_retrieve e (job_polls s) job_id)\<rparr>"
  from Suc.prems(1) have "\<not> terminal (jobs_retrieve e (job_polls s + 0) job_id)" by blast
  then have now: "\<not> terminal (jobs_retrieve e (job_polls s) job_id)" by simp
  have b: "\<forall>i<n. \<not> terminal (jobs_retrieve e (job_polls ?s1 + i) job_id)"
  proof (intro allI impI)
    fix i assume "i < n"
    then have "Suc i < Suc n" by simp
    with Suc.prems(1) have "\<not> terminal (jobs_retrieve e (job_polls s + Suc i) job_id)" by blast
    then show "\<not> terminal (jobs_retrieve e (job_polls ?s1 + i) job_id)" by simp
  qed
  have r: "jobs_retrieve e (job_polls ?s1 + n) job_id = Some info"
    using Suc.prems(2) by simp
  have step: "monitor_loop e job_id ci s = monitor_loop e job_id ci ?s1"
    by (subst monitor_loop.simps) (simp only: job_poll_continue [OF now assms(4)] sum.case)
  have ih: "monitor_loop e job_id ci ?s1 =
     Some (Inr (job_status info = ''succeeded''),
           ?s1\<lparr>job_polls := job_polls ?s1 + n + 1,
             trace := trace ?s1 @ polling_trace e job_id ci (job_polls ?s1) n
                      @ terminal_events job_id info\<rparr>)"
    by (rule Suc.IH [OF b r])
  show ?case unfolding step ih by simp
qed

lemma monitor_loop_needs_terminal:
  assumes "monitor_loop e job_id ci s = Some y" "sleep_error ci = None"
  shows "\<exists>i. terminal (jobs_retrieve e (job_polls s + i) job_id)"
proof -
  define P where "P \<equiv> \<lambda>(e::env) (job_id::string) (ci::int) (s::run_state)
       (y::(py_exception + bool) \<times> run_state).
     sleep_error ci = None \<longrightarrow> (\<exists>i. terminal (jobs_retrieve e (job_polls s + i) job_id))"
  have "P e job_id ci s y"
  proof (rule monitor_loop.raw_induct [where P = P, OF _ assms(1)])
    fix f e job_id ci s and y :: "(py_exception + bool) \<times> run_state"
    assume ih: "\<And>e job_id ci s y. f e job_id ci s = Some y \<Longrightarrow> P e job_id ci s y"
      and eq: "(case job_poll e job_id ci s of Inl result \<Rightarrow> Some result
                | Inr s' \<Rightarrow> f e job_id ci s') = Some y"
    show "P e job_id ci s y"
      unfolding P_def
    proof (intro impI)
      assume ok: "sleep_error ci = None"
      show "\<exists>i. terminal (jobs_retrieve e (job_polls s + i) job_id)"
      proof (cases "terminal (jobs_retrieve e (job_polls s) job_id)")
        case True
        then have "terminal (jobs_retrieve e (job_polls s + 0) job_id)" by simp
        then show ?thesis by blast
      next
        case False
        let ?s1 = "s\<lparr>job_polls := job_polls s + 1,
            trace := trace s @ polling_events job_id ci (jobs_retrieve e (job_polls s) job_id)\<rparr>"
        from eq have "f e job_id ci ?s1 = Some y"
          by (simp only: job_poll_continue [OF False ok] sum.case)
        then have "P e job_id ci ?s1 y" by (rule ih)
        with ok obtain i where "terminal (jobs_retrieve e (job_polls s + Suc i) job_id)"
          unfolding P_def by auto
        then show ?thesis by blast
      qed
    qed
  qed
  with assms(2) show ?thesis unfolding P_def by blast
qed

lemma stub_not_terminal:
  "\<forall>i<2. \<not> terminal (jobs_retrieve stub_env (job_polls initial_state + i) ''job-1'')"
proof (intro allI impI)
  fix i :: nat assume "i < 2"
  then have "i = 0 \<or> i = 1" by auto
  then show "\<not> terminal (jobs_retrieve stub_env (job_polls initial_state + i) ''job-1'')"
    by (auto simp: terminal_def stub_env_def initial_state_def queued_info_def running_info_def)
qed

lemma stub_terminal:
  "jobs_retrieve stub_env (job_polls initial_state + 2) ''job-1'' = Some succeeded_info"
  "terminal (Some succeeded_info)"
  by (simp_all add: stub_env_def initial_state_def terminal_def succeeded_info_def)

lemma sleep_minute: "sleep_error 60 = None"
  by (simp add: sleep_error_def)

lemma stub_polling_trace:
  "polling_trace stub_env ''job-1'' 60 0 2 =
     [Call_Jobs_Retrieve ''job-1'', Out (Job_Status ''queued''), Out (Waiting_Seconds 60), Sleep 60,
      Call_Jobs_Retrieve ''job-1'', Out (Job_Status ''running''), Out (Waiting_Seconds 60), Sleep 60]"
  by (simp add: numeral_2_eq_2 polling_events_def stub_env_def queued_info_def running_info_def)

text \<open>
  Claim C6, as stated: on the status \<^verbatim>\<open>succeeded\<close> the monitor returns a success outcome
  carrying the identifier of the fine-tuned model, and on any other status or a query
  failure it goes on polling. The value returned is the bare \<^verbatim>\<open>True\<close>: it is the same
  against a service whose model is \<^verbatim>\<open>m-123\<close> and one whose model is \<^verbatim>\<open>m-456\<close>. And
  with a negative check interval the first poll that shows \<^verbatim>\<open>queued\<close> ends the
  monitoring: the sleep raises in the \<^verbatim>\<open>try\<close> and again in the \<^verbatim>\<open>except\<close> clause.
\<close>

theorem monitor_returns_bare_flag:
  "map_option fst (monitor_fine_tuning_job stub_env ''job-1'' 60 initial_state) = Some (Inr True)
   \<and> map_option fst (monitor_fine_tuning_job other_model_env ''job-1'' 60 initial_state)
       = Some (Inr True)
   \<and> jobs_retrieve stub_env 2 ''job-1'' = Some succeeded_info
   \<and> fine_tuned_model succeeded_info = Some ''m-123''
   \<and> map_option fine_tuned_model (jobs_retrieve other_model_env 0 ''job-1'') = Some (Some ''m-456'')
   \<and> monitor_fine_tuning_job stub_env ''job-1'' (- 1) initial_state =
       Some (Inl ValueError,
         \<lparr>readings = 0, file_polls = 0, job_polls = 1,
          trace = [Out (Monitoring ''job-1''), Call_Jobs_Retrieve ''job-1'',
                   Out (Job_Status ''queued''), Out (Waiting_Seconds (- 1)),
                   Out Error_Monitoring]\<rparr>)"
proof -
  let ?s0 = "emit [Out (Monitoring ''job-1'')] initial_state"
  have jp: "job_polls ?s0 = job_polls initial_state" by (simp add: emit_def)
  have a: "monitor_loop stub_env ''job-1'' 60 ?s0 =
     Some (Inr (job_status succeeded_info = ''succeeded''),
           ?s0\<lparr>job_polls := job_polls ?s0 + 2 + 1,
             trace := trace ?s0 @ polling_trace stub_env ''job-1'' 60 (job_polls ?s0) 2
                      @ terminal_events ''job-1'' succeeded_info\<rparr>)"
  proof -
    have q: "\<forall>i<2. \<not> terminal (jobs_retrieve stub_env (job_polls ?s0 + i) ''job-1'')"
      unfolding jp by (rule stub_not_terminal)
    have r: "jobs_retrieve stub_env (job_polls ?s0 + 2) ''job-1'' = Some succeeded_info"
      unfolding jp by (rule stub_terminal(1))
    show ?thesis by (rule monitor_loop_returns [OF q r stub_terminal(2) sleep_minute])
  qed
  let ?other = "succeeded_info\<lparr>fine_tuned_model := Some ''m-456''\<rparr>"
  have ot: "terminal (Some ?other)" by (simp add: terminal_def succeeded_info_def)
  have b: "monitor_loop other_model_env ''job-1'' 60 ?s0 =
     Some (Inr (job_status ?other = ''succeeded''),
           ?s0\<lparr>job_polls := job_polls ?s0 + 0 + 1,
             trace := trace ?s0 @ polling_trace other_model_env ''job-1'' 60 (job_polls ?s0) 0
                      @ terminal_events ''job-1'' ?other\<rparr>)"
    by (rule monitor_loop_returns) (simp_all add: other_model_env_def ot sleep_minute)
  have c: "monitor_loop stub_env ''job-1'' (- 1) ?s0 =
     Some (Inl ValueError,
         \<lparr>readings = 0, file_polls = 0, job_polls = 1,
          trace = [Out (Monitoring ''job-1''), Call_Jobs_Retrieve ''job-1'',
                   Out (Job_Status ''queued''), Out (Waiting_Seconds (- 1)),
                   Out Error_Monitoring]\<rparr>)"
    by (subst monitor_loop.simps)
       (simp add: job_poll_def monitor_except_def sleep_error_def emit_def initial_state_def
          stub_env_def queued_info_def)
  show ?thesis
    unfolding monitor_fine_tuning_job_def a b c
    by (simp add: succeeded_info_def stub_env_def other_model_env_def)
qed

text \<open>
  Claim C6, amended: with a check interval that \<^verbatim>\<open>time.sleep\<close> accepts, the monitor
  polls with no timeout of its own; after \<open>n\<close> polls that raise or show a status other
  than \<^verbatim>\<open>succeeded\<close>, \<^verbatim>\<open>failed\<close> and \<^verbatim>\<open>cancelled\<close>, each followed by a sleep of the
  interval, the poll that shows one of the three ends it after \<open>n + 1\<close> polls: it
  returns the bare \<^verbatim>\<open>True\<close> exactly for \<^verbatim>\<open>succeeded\<close>, the identifier of the fine-tuned
  model being printed and not returned, and \<^verbatim>\<open>False\<close> for the other two. If no poll ever
  shows one of the three it never returns. Against the stub (queued, running, succeeded
  with \<^verbatim>\<open>m-123\<close>) it returns \<^verbatim>\<open>True\<close>, having printed \<^verbatim>\<open>m-123\<close>, after exactly three polls.
\<close>

theorem monitor_outcome:
  "(sleep_error ci = None
      \<and> (\<forall>i<n. \<not> terminal (jobs_retrieve e (job_polls s + i) job_id))
      \<and> jobs_retrieve e (job_polls s + n) job_id = Some info \<and> terminal (Some info)
    \<longrightarrow> monitor_fine_tuning_job e job_id ci s =
          Some (Inr (job_status info = ''succeeded''),
                s\<lparr>job_polls := job_polls s + n + 1,
                  trace := trace s @ [Out (Monitoring job_id)]
                           @ polling_trace e job_id ci (job_polls s) n
                           @ terminal_events job_id info\<rparr>))
   \<and> (sleep_error ci = None \<and> (\<forall>i. \<not> terminal (jobs_retrieve e (job_polls s + i) job_id))
    \<longrightarrow> monitor_fine_tuning_job e job_id ci s = None)"
proof (intro conjI impI)
  let ?s0 = "emit [Out (Monitoring job_id)] s"
  assume a: "sleep_error ci = None
      \<and> (\<forall>i<n. \<not> terminal (jobs_retrieve e (job_polls s + i) job_id))
      \<and> jobs_retrieve e (job_polls s + n) job_id = Some info \<and> terminal (Some info)"
  then have b: "\<forall>i<n. \<not> terminal (jobs_retrieve e (job_polls ?s0 + i) job_id)"
    and r: "jobs_retrieve e (job_polls ?s0 + n) job_id = Some info" and t: "terminal (Some info)"
    and ok: "sleep_error ci = None"
    by (simp_all add: emit_def)
  have "monitor_loop e job_id ci ?s0 =
     Some (Inr (job_status info = ''succeeded''),
           ?s0\<lparr>job_polls := job_polls ?s0 + n + 1,
             trace := trace ?s0 @ polling_trace e job_id ci (job_polls ?s0) n
                      @ terminal_events job_id info\<rparr>)"
    by (rule monitor_loop_returns [OF b r t ok])
  then show "monitor_fine_tuning_job e job_id ci s =
          Some (Inr (job_status info = ''succeeded''),
                s\<lparr>job_polls := job_polls s + n + 1,
                  trace := trace s @ [Out (Monitoring job_id)]
                           @ polling_trace e job_id ci (job_polls s) n
                           @ terminal_events job_id info\<rparr>)"
    unfolding monitor_fine_tuning_job_def by (simp add: emit_def)
next
  assume a: "sleep_error ci = None \<and> (\<forall>i. \<not> terminal (jobs_retrieve e (job_polls s + i) job_id))"
  show "monitor_fine_tuning_job e job_id ci s = None"
  proof (rule ccontr)
    assume "monitor_fine_tuning_job e job_id ci s \<noteq> None"
    then obtain y where "monitor_loop e job_id ci (emit [Out (Monitoring job_id)] s) = Some y"
      unfolding monitor_fine_tuning_job_def by auto
    from monitor_loop_needs_terminal [OF this] a show False by (simp add: emit_def)
  qed
qed

theorem monitor_outcome_witness:
  "sleep_error 60 = None
   \<and> monitor_fine_tuning_job stub_env ''job-1'' 60 initial_state =
     Some (Inr True,
       \<lparr>readings = 0, file_polls = 0, job_polls = 3,
        trace = [Out (Monitoring ''job-1''),
                 Call_Jobs_Retrieve ''job-1'', Out (Job_Status ''queued''),
                 Out (Waiting_Seconds 60), Sleep 60,
                 Call_Jobs_Retrieve ''job-1'', Out (Job_Status ''running''),
                 Out (Waiting_Seconds 60), Sleep 60,
                 Call_Jobs_Retrieve ''job-1'', Out (Job_Status ''succeeded''),
                 Out Completed_Successfully, Out (Fine_Tuned_Model (Some ''m-123''))]\<rparr>)
   \<and> monitor_fine_tuning_job running_env ''job-1'' 60 initial_state = None"
proof -
  have n: "\<forall>i. \<not> terminal (jobs_retrieve running_env (job_polls initial_state + i) ''job-1'')"
    by (simp add: terminal_def running_env_def running_info_def)
  show ?thesis
    using monitor_outcome [of 60 2 stub_env initial_state "''job-1''" succeeded_info]
      monitor_outcome [of 60 0 running_env initial_state "''job-1''" succeeded_info]
      stub_not_terminal stub_terminal sleep_minute n
    by (simp add: stub_polling_trace initial_state_def terminal_events_def succeeded_info_def)
qed

subsection \<open>From an empty corpus to the second script\<close>

lemma all_fail_no_examples:
  "list_all (upload_fails a w) fs \<Longrightarrow> training_examples a w fs = []"
  by (simp add: training_examples_filter filter_empty_conv list_all_iff)

text \<open>
  Claim C9: validation fails on a corpus file without lines, so the empty corpus that
  the first script writes when every upload fails stops the second script before any
  call to the service: \<^verbatim>\<open>main\<close> exits with status 1 and its trace holds no client call.
\<close>

theorem empty_corpus_rejected:
  assumes "0 < max_workers a"
    and "list_all (upload_fails a w) (find_images w (photos_dir a))"
    and "process_images a w fs = Inr (files e)"
    and "training_file sa = output_file a"
  shows "corpus a w fs = Some []
     \<and> validate_jsonl (files e) (training_file sa)
         = (False, [Validating (training_file sa), Error_Empty (training_file sa)])
     \<and> main e sa = Some (Exit_1, initial_state\<lparr>trace :=
          (if \<not> nonempty (openai_api_key sa) \<and> \<not> nonempty (environ_api_key e)
           then [Out Api_Key_Not_Provided]
           else [Out (Validation (Validating (training_file sa))),
                 Out (Validation (Error_Empty (training_file sa))),
                 Out Training_Validation_Failed])\<rparr>)"
proof -
  have c: "corpus a w fs = Some []"
    using assms(1,2) by (simp add: corpus_eq all_fail_no_examples)
  with assms(3) have f: "files e (training_file sa) = Some []"
    by (simp add: corpus_def assms(4))
  then have v: "validate_jsonl (files e) (training_file sa)
         = (False, [Validating (training_file sa), Error_Empty (training_file sa)])"
    by (simp add: validate_jsonl_def)
  show ?thesis
    by (simp add: c v main_def validate_step_def emit_def initial_state_def)
qed

theorem empty_corpus_rejected_witness:
  "0 < max_workers live_args
   \<and> list_all (upload_fails live_args broken_world) (find_images broken_world (photos_dir live_args))
   \<and> process_images live_args broken_world no_files = Inr (files empty_corpus_env)
   \<and> training_file stub_submit_args = output_file live_args
   \<and> corpus live_args broken_world no_files = Some []
   \<and> main empty_corpus_env stub_submit_args =
       Some (Exit_1, \<lparr>readings = 0, file_polls = 0, job_polls = 0,
          trace = [Out (Validation (Validating ''training_data.jsonl'')),
                   Out (Validation (Error_Empty ''training_data.jsonl'')),
                   Out Training_Validation_Failed]\<rparr>)"
proof -
  have m: "0 < max_workers live_args" by (simp add: live_args_def scenario_args_def)
  have u: "upload_image live_args broken_world p = Inr JNull" for p
    by (simp add: upload_image_def live_args_def scenario_args_def broken_world_def resize_image_def)
  have k: "list_all (upload_fails live_args broken_world)
             (find_images broken_world (photos_dir live_args))"
    by (simp add: list_all_iff upload_fails_def u)
  have p: "process_images live_args broken_world no_files = Inr (files empty_corpus_env)"
    by (simp add: process_images_def m all_fail_no_examples [OF k] empty_corpus_env_def)
       (simp add: live_args_def scenario_args_def)
  have t: "training_file stub_submit_args = output_file live_args"
    by (simp add: stub_submit_args_def live_args_def scenario_args_def)
  show ?thesis
    using empty_corpus_rejected [OF m k p t] m k p t
    by (simp add: stub_submit_args_def initial_state_def empty_corpus_env_def stub_env_def nonempty_def)
qed


end
